theory Spec2Isabelle
  imports Main
begin

section \<open>The plan command runner of server/events/plan\_command\_runner.go\<close>

text \<open>
  The runner orchestrates one plan pass: it builds the project commands, partitions them,
  clears stale plans and locks, tries a lock for every Plan command, runs the plans (or
  aborts on a lock failure), aggregates, persists, reports combined commit statuses and
  hands over to the policy-check stage.

  The runner only talks to collaborators (command builder, commit status updater, locker,
  working directory, plan finder, database updater, pull updater, policy-check runner).
  The model makes every collaborator call an \<open>event\<close> appended to a trace, in the order
  the Go code performs the calls. A collaborator that returns a value the code looks at is
  a function of the runner record; it receives the trace of the pass so far (so its answer
  may depend on everything that happened before, as a stateful collaborator's does) and its
  answer is stored in the event. Calls whose returned error is only written to the log are
  recorded without an answer. Log lines (\<open>ctx.Log\<close>, \<open>pctx.Log\<close>) and the mutex around the
  lock loop are not modelled: the model is one pass, run alone.
\<close>

subsection \<open>Data\<close>

text \<open>Go's \<open>error\<close> interface, represented by the message of the error.\<close>

type_synonym error = string

text \<open>\<open>errors.Wrap(err, msg)\<close> of github.com/pkg/errors: the message becomes \<open>msg: err\<close>.\<close>

definition errors_Wrap :: "error \<Rightarrow> string \<Rightarrow> error" where
  "errors_Wrap e msg = msg @ '': '' @ e"

text \<open>
  \<open>command.Name\<close> is declared outside this file. The runner names \<open>command.Plan\<close>,
  \<open>command.PolicyCheck\<close> and \<open>command.Apply\<close>; every other name is \<open>OtherName\<close>.
\<close>

datatype Name = Apply | Plan | PolicyCheck | OtherName nat

datatype Trigger = AutoTrigger | CommentTrigger

datatype CommitStatus = PendingCommitStatus | SuccessCommitStatus | FailedCommitStatus

datatype ProjectPlanStatus =
    ErroredPlanStatus
  | PlannedPlanStatus
  | PlannedNoChangesPlanStatus
  | ErroredApplyStatus
  | AppliedPlanStatus
  | DiscardedPlanStatus
  | ErroredPolicyCheckStatus
  | PassedPolicyCheckStatus

record Repo =
  FullName :: string

record PullRequest =
  BaseRepo :: Repo
  Num :: int

record PullReqStatus =
  Approved :: bool
  Mergeable :: bool

record ProjectStatus =
  ps_Workspace :: string
  ps_RepoRelDir :: string
  ps_ProjectName :: string
  Status :: ProjectPlanStatus

record PullStatus =
  Projects :: "ProjectStatus list"

record Context =
  Pull :: PullRequest
  Trigger :: Trigger
  PullStatus :: "PullStatus option"
  PullRequestStatus :: PullReqStatus

text \<open>
  \<open>command.ProjectContext\<close>: the fields the runner reads. \<open>User\<close> is the login of the
  acting user.
\<close>

record ProjectContext =
  CommandName :: Name
  RepoRelDir :: string
  Workspace :: string
  ProjectName :: string
  ParallelPlanEnabled :: bool
  RepoLocking :: bool
  pc_Pull :: PullRequest
  User :: string

text \<open>\<open>command.ProjectResult\<close>; \<open>PlanSuccess\<close> is a pointer, \<open>None\<close> is nil.\<close>

record ProjectResult =
  pr_Command :: Name
  pr_PlanSuccess :: "string option"
  pr_Error :: "error option"
  pr_Failure :: string
  pr_RepoRelDir :: string
  pr_Workspace :: string
  pr_ProjectName :: string

text \<open>\<open>command.Result\<close>. A Go struct literal leaves the fields it does not name at zero.\<close>

record Result =
  Error :: "error option"
  Failure :: string
  ProjectResults :: "ProjectResult list"
  PlansDeleted :: bool

definition Result_zero :: Result where
  "Result_zero = \<lparr>Error = None, Failure = [], ProjectResults = [], PlansDeleted = False\<rparr>"

text \<open>
  \<open>CommentCommand\<close> is declared outside this file; its method \<open>IsForSpecificProject()\<close> is
  the field of that name, holding what the method returns.
\<close>

record CommentCommand =
  cc_RepoRelDir :: string
  cc_Workspace :: string
  cc_ProjectName :: string
  IsForSpecificProject :: bool

text \<open>The \<open>PullCommand\<close> handed to \<open>updatePull\<close>: \<open>AutoplanCommand{}\<close> or the comment command.\<close>

datatype PullCommand = AutoplanCommand | CommentCmd CommentCommand

text \<open>\<open>locking.TryLockResponse\<close>, the fields the runner reads.\<close>

record TryLockResponse =
  LockAcquired :: bool
  LockFailureReason :: string

subsection \<open>Collaborator calls as events\<close>

datatype event =
    EvBuildAutoplanCommands Context "ProjectContext list \<times> error option"
  | EvBuildPlanCommands Context CommentCommand "ProjectContext list \<times> error option"
  | EvUpdateCombined Repo PullRequest CommitStatus Name
  | EvUpdateCombinedCount Repo PullRequest CommitStatus Name int int
  | EvUpdatePull Context PullCommand Result
  | EvGetPullDir Repo PullRequest "string \<times> error option"
  | EvDeletePlans string
  | EvUnlockByPull string int
  | EvTryLock ProjectContext "error + TryLockResponse"
  | EvRunProjectCmds "ProjectContext list" Result
  | EvRunProjectCmdsParallelGroups Context "ProjectContext list" int Result
  | EvUpdateDB Context PullRequest "ProjectResult list" "PullStatus \<times> error option"
  | EvPolicyCheckRun Context "ProjectContext list"
  | EvFetchPullStatus PullRequest "PullReqStatus \<times> error option"
  | EvDiscardReviews Repo PullRequest
  | EvGetPullStatus PullRequest "PullStatus option \<times> error option"

text \<open>
  \<open>PlanCommandRunner\<close>: the configuration fields of the struct, and for every collaborator
  whose answer the code reads, the function giving that answer from the trace so far and
  the arguments of the call. A Go pair \<open>(value, error)\<close> is a pair whose second component
  is \<open>None\<close> for a nil error; the code decides what it does with the value. \<open>TryLock\<close>
  returns a pointer the code dereferences whenever the error is nil, so its answer is a
  sum: \<open>Inl\<close> the error, \<open>Inr\<close> the response. \<open>projectLocker\<close> may be nil (\<open>None\<close>).

  \<open>runProjectCmds\<close> and \<open>runProjectCmdsParallelGroups\<close> (the execution pool),
  \<open>Result.HasErrors\<close> and \<open>AutoMerger.automergeEnabled\<close> are code of the repository outside
  this file; they are parameters here, so every theorem holds whatever they compute.
\<close>

record PlanCommandRunner =
  SilenceNoProjects :: bool
  silenceVCSStatusNoPlans :: bool
  silenceVCSStatusNoProjects :: bool
  parallelPoolSize :: int
  DiscardApprovalOnPlan :: bool
  BuildAutoplanCommands :: "event list \<Rightarrow> Context \<Rightarrow> ProjectContext list \<times> error option"
  BuildPlanCommands ::
    "event list \<Rightarrow> Context \<Rightarrow> CommentCommand \<Rightarrow> ProjectContext list \<times> error option"
  GetPullDir :: "event list \<Rightarrow> Repo \<Rightarrow> PullRequest \<Rightarrow> string \<times> error option"
  projectLocker :: "(event list \<Rightarrow> ProjectContext \<Rightarrow> error + TryLockResponse) option"
  runProjectCmds :: "event list \<Rightarrow> ProjectContext list \<Rightarrow> Result"
  runProjectCmdsParallelGroups ::
    "event list \<Rightarrow> Context \<Rightarrow> ProjectContext list \<Rightarrow> int \<Rightarrow> Result"
  updateDB ::
    "event list \<Rightarrow> Context \<Rightarrow> PullRequest \<Rightarrow> ProjectResult list \<Rightarrow> PullStatus \<times> error option"
  FetchPullStatus :: "event list \<Rightarrow> PullRequest \<Rightarrow> PullReqStatus \<times> error option"
  GetPullStatus :: "event list \<Rightarrow> PullRequest \<Rightarrow> PullStatus option \<times> error option"
  HasErrors :: "Result \<Rightarrow> bool"
  automergeEnabled :: "ProjectContext list \<Rightarrow> bool"

subsection \<open>The helpers of the runner\<close>

text \<open>
  Modelled from the spec: \<open>models.PullStatus.StatusCount\<close> is not in this file. The spec
  uses it as the number of projects of the pull that are in the given state.
\<close>

definition StatusCount :: "PullStatus \<Rightarrow> ProjectPlanStatus \<Rightarrow> int" where
  "StatusCount pullStatus status =
     int (length (filter (\<lambda>pr. Status pr = status) (Projects pullStatus)))"

text \<open>\<open>partitionProjectCmds\<close>: the loop, with the two slices it appends to.\<close>

fun partitionLoop ::
  "ProjectContext list \<Rightarrow> ProjectContext list \<times> ProjectContext list
     \<Rightarrow> ProjectContext list \<times> ProjectContext list" where
  "partitionLoop [] acc = acc"
| "partitionLoop (cmd # cmds) (projectCmds, policyCheckCmds) =
     (case CommandName cmd of
        Plan \<Rightarrow> partitionLoop cmds (projectCmds @ [cmd], policyCheckCmds)
      | PolicyCheck \<Rightarrow> partitionLoop cmds (projectCmds, policyCheckCmds @ [cmd])
      | _ \<Rightarrow> partitionLoop cmds (projectCmds, policyCheckCmds))"

definition partitionProjectCmds ::
  "ProjectContext list \<Rightarrow> ProjectContext list \<times> ProjectContext list" where
  "partitionProjectCmds cmds = partitionLoop cmds ([], [])"

text \<open>\<open>isParallelEnabled\<close>; the index is read only when the slice is not empty.\<close>

definition isParallelEnabled :: "ProjectContext list \<Rightarrow> bool" where
  "isParallelEnabled projectCmds =
     (length projectCmds > 0 \<and> ParallelPlanEnabled (projectCmds ! 0))"

text \<open>
  \<open>deletePlans\<close>: when \<open>GetPullDir\<close> fails the error is logged and \<open>DeletePlans\<close> is still
  called, with the directory \<open>GetPullDir\<close> returned.
\<close>

definition deletePlans :: "PlanCommandRunner \<Rightarrow> Context \<Rightarrow> event list \<Rightarrow> event list" where
  "deletePlans p ctx t =
     (let (pullDir, err) = GetPullDir p t (BaseRepo (Pull ctx)) (Pull ctx);
          t = t @ [EvGetPullDir (BaseRepo (Pull ctx)) (Pull ctx) (pullDir, err)]
      in t @ [EvDeletePlans pullDir])"

text \<open>\<open>updateCommitStatus\<close>; the Apply branch returns without a call in one case.\<close>

definition updateCommitStatus ::
  "Context \<Rightarrow> PullStatus \<Rightarrow> Name \<Rightarrow> event list \<Rightarrow> event list" where
  "updateCommitStatus ctx pullStatus commandName t =
     (let total = int (length (Projects pullStatus));
          status = SuccessCommitStatus
      in if commandName = Plan then
           (let numErrored = StatusCount pullStatus ErroredPlanStatus;
                numSuccess = total - numErrored;
                status = (if numErrored > 0 then FailedCommitStatus else status)
            in t @ [EvUpdateCombinedCount (BaseRepo (Pull ctx)) (Pull ctx) status commandName
                      numSuccess total])
         else if commandName = Apply then
           (let numSuccess = StatusCount pullStatus AppliedPlanStatus
                             + StatusCount pullStatus PlannedNoChangesPlanStatus;
                numErrored = StatusCount pullStatus ErroredApplyStatus
            in if numErrored > 0 then
                 t @ [EvUpdateCombinedCount (BaseRepo (Pull ctx)) (Pull ctx) FailedCommitStatus
                        commandName numSuccess total]
               else if numSuccess < total then t
               else t @ [EvUpdateCombinedCount (BaseRepo (Pull ctx)) (Pull ctx) status
                           commandName numSuccess total])
         else t @ [EvUpdateCombinedCount (BaseRepo (Pull ctx)) (Pull ctx) status commandName
                     0 total])"

text \<open>
  The lock loop (lines 138-160 and 306-328, the same text): one \<open>TryLock\<close> per command, in
  order; a result is appended to \<open>projectResults\<close> only when the lock erred or failed.
  The arguments of \<open>TryLock\<close> are all fields of \<open>pctx\<close>, so the event keeps \<open>pctx\<close>.
\<close>

definition lockResult :: "ProjectContext \<Rightarrow> error + TryLockResponse \<Rightarrow> ProjectResult" where
  "lockResult pctx lockResponse =
     (let lockResult = \<lparr>pr_Command = Plan, pr_PlanSuccess = None, pr_Error = None,
                        pr_Failure = [], pr_RepoRelDir = RepoRelDir pctx,
                        pr_Workspace = Workspace pctx, pr_ProjectName = ProjectName pctx\<rparr>
      in case lockResponse of
           Inl err \<Rightarrow> lockResult\<lparr>pr_Error := Some (errors_Wrap err ''acquiring lock'')\<rparr>
         | Inr resp \<Rightarrow> lockResult\<lparr>pr_Failure := LockFailureReason resp\<rparr>)"

fun lockLoop ::
  "(event list \<Rightarrow> ProjectContext \<Rightarrow> error + TryLockResponse) \<Rightarrow> ProjectContext list
     \<Rightarrow> ProjectResult list \<times> event list \<Rightarrow> ProjectResult list \<times> event list" where
  "lockLoop locker [] acc = acc"
| "lockLoop locker (pctx # projectCmds) (projectResults, t) =
     (let lockResponse = locker t pctx;
          t = t @ [EvTryLock pctx lockResponse];
          lockResult = lockResult pctx lockResponse
      in if pr_Error lockResult \<noteq> None \<or> pr_Failure lockResult \<noteq> []
         then lockLoop locker projectCmds (projectResults @ [lockResult], t)
         else lockLoop locker projectCmds (projectResults, t))"

subsection \<open>The two passes\<close>

text \<open>
  \<open>runAutoplan\<close>, the pass of an automatic trigger. The trace starts empty; the result is
  the context as the pass leaves it (the code writes \<open>ctx.PullStatus\<close> before the
  policy-check stage) and the trace of the pass.
\<close>

definition runAutoplan :: "PlanCommandRunner \<Rightarrow> Context \<Rightarrow> Context \<times> event list" where
  "runAutoplan p ctx =
     (let baseRepo = BaseRepo (Pull ctx);
          pull = Pull ctx;
          t = [];
          (projectCmds, err) = BuildAutoplanCommands p t ctx;
          t = t @ [EvBuildAutoplanCommands ctx (projectCmds, err)]
      in case err of
           Some e \<Rightarrow>
             (let t = t @ [EvUpdateCombined baseRepo pull FailedCommitStatus Plan];
                  t = t @ [EvUpdatePull ctx AutoplanCommand (Result_zero\<lparr>Error := Some e\<rparr>)]
              in (ctx, t))
         | None \<Rightarrow>
             (let (projectCmds, policyCheckCmds) = partitionProjectCmds projectCmds
              in if length projectCmds = 0 then
                   (if \<not> (silenceVCSStatusNoPlans p \<or> silenceVCSStatusNoProjects p) then
                      (let t = t @ [EvUpdateCombinedCount baseRepo pull SuccessCommitStatus
                                      Plan 0 0];
                           t = t @ [EvUpdateCombinedCount baseRepo pull SuccessCommitStatus
                                      PolicyCheck 0 0];
                           t = t @ [EvUpdateCombinedCount baseRepo pull SuccessCommitStatus
                                      Apply 0 0]
                       in (ctx, t))
                    else (ctx, t))
                 else
                   (let t = t @ [EvUpdateCombined (BaseRepo (Pull ctx)) (Pull ctx)
                                   PendingCommitStatus Plan];
                        t = deletePlans p ctx t;
                        t = t @ [EvUnlockByPull (FullName baseRepo) (Num pull)];
                        (projectResults, t) =
                          (case projectLocker p of
                             None \<Rightarrow> ([], t)
                           | Some locker \<Rightarrow> lockLoop locker projectCmds ([], t));
                        (result, t) =
                          (if length projectResults > 0 then
                             (Result_zero\<lparr>ProjectResults := projectResults\<rparr>,
                              t @ [EvUnlockByPull (FullName baseRepo) (Num pull)])
                           else if isParallelEnabled projectCmds then
                             (let r = runProjectCmdsParallelGroups p t ctx projectCmds
                                        (parallelPoolSize p)
                              in (r, t @ [EvRunProjectCmdsParallelGroups ctx projectCmds
                                            (parallelPoolSize p) r]))
                           else
                             (let r = runProjectCmds p t projectCmds
                              in (r, t @ [EvRunProjectCmds projectCmds r])));
                        (result, t) =
                          (if automergeEnabled p projectCmds \<and> HasErrors p result then
                             (result\<lparr>PlansDeleted := True\<rparr>, deletePlans p ctx t)
                           else (result, t));
                        t = t @ [EvUpdatePull ctx AutoplanCommand result];
                        (pullStatus, err) = updateDB p t ctx (Pull ctx) (ProjectResults result);
                        t = t @ [EvUpdateDB ctx (Pull ctx) (ProjectResults result)
                                   (pullStatus, err)];
                        t = updateCommitStatus ctx pullStatus Plan t;
                        t = updateCommitStatus ctx pullStatus Apply t
                    in if length policyCheckCmds > 0
                          \<and> \<not> (HasErrors p result \<or> PlansDeleted result) then
                         (let ctx = ctx\<lparr>PullStatus := Some pullStatus\<rparr>
                          in (ctx, t @ [EvPolicyCheckRun ctx policyCheckCmds]))
                       else (ctx, t))))"

text \<open>
  \<open>run\<close>, the pass of a comment trigger. \<open>ctx.PullRequestStatus\<close> is assigned whatever
  \<open>FetchPullStatus\<close> returned, also on an error.
\<close>

definition run ::
  "PlanCommandRunner \<Rightarrow> Context \<Rightarrow> CommentCommand \<Rightarrow> Context \<times> event list" where
  "run p ctx cmd =
     (let baseRepo = BaseRepo (Pull ctx);
          pull = Pull ctx;
          t = [];
          (prs, err) = FetchPullStatus p t pull;
          t = t @ [EvFetchPullStatus pull (prs, err)];
          ctx = ctx\<lparr>PullRequestStatus := prs\<rparr>;
          t = (if DiscardApprovalOnPlan p then t @ [EvDiscardReviews baseRepo pull] else t);
          t = t @ [EvUpdateCombined baseRepo pull PendingCommitStatus Plan];
          (projectCmds, err) = BuildPlanCommands p t ctx cmd;
          t = t @ [EvBuildPlanCommands ctx cmd (projectCmds, err)]
      in case err of
           Some e \<Rightarrow>
             (let t = t @ [EvUpdateCombined (BaseRepo (Pull ctx)) (Pull ctx)
                             FailedCommitStatus Plan];
                  t = t @ [EvUpdatePull ctx (CommentCmd cmd) (Result_zero\<lparr>Error := Some e\<rparr>)]
              in (ctx, t))
         | None \<Rightarrow>
             if length projectCmds = 0 \<and> SilenceNoProjects p then
               (if \<not> silenceVCSStatusNoProjects p then
                  (if IsForSpecificProject cmd then
                     (let (pullStatus, err) = GetPullStatus p t pull;
                          t = t @ [EvGetPullStatus pull (pullStatus, err)]
                      in case err of
                           Some e \<Rightarrow> (ctx, t)
                         | None \<Rightarrow>
                             (case pullStatus of
                                None \<Rightarrow>
                                  (ctx, t @ [EvUpdateCombinedCount baseRepo pull
                                               SuccessCommitStatus Plan 0 0])
                              | Some ps \<Rightarrow> (ctx, updateCommitStatus ctx ps Plan t)))
                   else
                     (let t = t @ [EvUpdateCombinedCount baseRepo pull SuccessCommitStatus
                                     Plan 0 0];
                          t = t @ [EvUpdateCombinedCount baseRepo pull SuccessCommitStatus
                                     PolicyCheck 0 0];
                          t = t @ [EvUpdateCombinedCount baseRepo pull SuccessCommitStatus
                                     Apply 0 0]
                      in (ctx, t)))
                else (ctx, t))
             else
               (let (projectCmds, policyCheckCmds) = partitionProjectCmds projectCmds;
                    t = (if \<not> IsForSpecificProject cmd then
                           (let t = deletePlans p ctx t
                            in t @ [EvUnlockByPull (FullName baseRepo) (Num pull)])
                         else t);
                    (projectResults, t) =
                      (case projectLocker p of
                         None \<Rightarrow> ([], t)
                       | Some locker \<Rightarrow> lockLoop locker projectCmds ([], t));
                    (result, t) =
                      (if length projectResults > 0 then
                         (Result_zero\<lparr>ProjectResults := projectResults\<rparr>,
                          t @ [EvUnlockByPull (FullName baseRepo) (Num pull)])
                       else if isParallelEnabled projectCmds then
                         (let r = runProjectCmdsParallelGroups p t ctx projectCmds
                                    (parallelPoolSize p)
                          in (r, t @ [EvRunProjectCmdsParallelGroups ctx projectCmds
                                        (parallelPoolSize p) r]))
                       else
                         (let r = runProjectCmds p t projectCmds
                          in (r, t @ [EvRunProjectCmds projectCmds r])));
                    (result, t) =
                      (if automergeEnabled p projectCmds \<and> HasErrors p result then
                         (result\<lparr>PlansDeleted := True\<rparr>, deletePlans p ctx t)
                       else (result, t));
                    t = t @ [EvUpdatePull ctx (CommentCmd cmd) result];
                    (pullStatus, err) = updateDB p t ctx pull (ProjectResults result);
                    t = t @ [EvUpdateDB ctx pull (ProjectResults result) (pullStatus, err)]
                in case err of
                     Some e \<Rightarrow> (ctx, t)
                   | None \<Rightarrow>
                       (let t = updateCommitStatus ctx pullStatus Plan t;
                            t = updateCommitStatus ctx pullStatus Apply t
                        in if length (ProjectResults result) > 0
                              \<and> \<not> (HasErrors p result \<or> PlansDeleted result) then
                             (ctx, t @ [EvPolicyCheckRun ctx policyCheckCmds])
                           else if length projectCmds = 0 \<and> \<not> IsForSpecificProject cmd then
                             (ctx, t @ [EvUpdateCombinedCount baseRepo pull
                                          SuccessCommitStatus PolicyCheck 0 0])
                           else (ctx, t))))"

text \<open>\<open>Run\<close> dispatches on the trigger of the context.\<close>

definition Run :: "PlanCommandRunner \<Rightarrow> Context \<Rightarrow> CommentCommand \<Rightarrow> Context \<times> event list" where
  "Run p ctx cmd = (if Trigger ctx = AutoTrigger then runAutoplan p ctx else run p ctx cmd)"

subsection \<open>Reading a trace\<close>

text \<open>The collaborator an event is a call to.\<close>

datatype kind =
    KBuild | KStatus | KUpdatePull | KGetPullDir | KDeletePlans | KUnlockByPull | KTryLock
  | KExecution | KUpdateDB | KPolicyCheckRun | KFetchPullStatus | KDiscardReviews
  | KGetPullStatus

fun kindOf :: "event \<Rightarrow> kind" where
  "kindOf (EvBuildAutoplanCommands c r) = KBuild"
| "kindOf (EvBuildPlanCommands c cmd r) = KBuild"
| "kindOf (EvUpdateCombined repo pull st nm) = KStatus"
| "kindOf (EvUpdateCombinedCount repo pull st nm n m) = KStatus"
| "kindOf (EvUpdatePull c k res) = KUpdatePull"
| "kindOf (EvGetPullDir repo pull r) = KGetPullDir"
| "kindOf (EvDeletePlans d) = KDeletePlans"
| "kindOf (EvUnlockByPull nm n) = KUnlockByPull"
| "kindOf (EvTryLock pctx r) = KTryLock"
| "kindOf (EvRunProjectCmds cmds r) = KExecution"
| "kindOf (EvRunProjectCmdsParallelGroups c cmds n r) = KExecution"
| "kindOf (EvUpdateDB c pull prs r) = KUpdateDB"
| "kindOf (EvPolicyCheckRun c cmds) = KPolicyCheckRun"
| "kindOf (EvFetchPullStatus pull r) = KFetchPullStatus"
| "kindOf (EvDiscardReviews repo pull) = KDiscardReviews"
| "kindOf (EvGetPullStatus pull r) = KGetPullStatus"

definition eventsOf :: "kind \<Rightarrow> event list \<Rightarrow> event list" where
  "eventsOf k es = filter (\<lambda>e. kindOf e = k) es"

text \<open>
  A lock attempt failed when \<open>TryLock\<close> returned an error, or a response with a failure
  reason: the condition of lines 157 and 325 on the answer of \<open>TryLock\<close>.
\<close>

definition lockFailed :: "error + TryLockResponse \<Rightarrow> bool" where
  "lockFailed r = (case r of Inl err \<Rightarrow> True | Inr resp \<Rightarrow> LockFailureReason resp \<noteq> [])"

text \<open>The commands a lock was tried for, and the results of the attempts that failed.\<close>

fun attempted :: "event list \<Rightarrow> ProjectContext list" where
  "attempted [] = []"
| "attempted (EvTryLock pctx r # es) = pctx # attempted es"
| "attempted (e # es) = attempted es"

fun lockFailures :: "event list \<Rightarrow> ProjectResult list" where
  "lockFailures [] = []"
| "lockFailures (EvTryLock pctx r # es) =
     (if lockFailed r then lockResult pctx r # lockFailures es else lockFailures es)"
| "lockFailures (e # es) = lockFailures es"

text \<open>What the command builder answered.\<close>

fun builtCmds :: "event list \<Rightarrow> (ProjectContext list \<times> error option) list" where
  "builtCmds [] = []"
| "builtCmds (EvBuildAutoplanCommands c r # es) = r # builtCmds es"
| "builtCmds (EvBuildPlanCommands c cmd r # es) = r # builtCmds es"
| "builtCmds (e # es) = builtCmds es"

text \<open>The results handed to \<open>updatePull\<close>.\<close>

fun postedResults :: "event list \<Rightarrow> Result list" where
  "postedResults [] = []"
| "postedResults (EvUpdatePull c k res # es) = res # postedResults es"
| "postedResults (e # es) = postedResults es"

text \<open>The results the execution pool returned.\<close>

fun poolResults :: "event list \<Rightarrow> Result list" where
  "poolResults [] = []"
| "poolResults (EvRunProjectCmds cmds r # es) = r # poolResults es"
| "poolResults (EvRunProjectCmdsParallelGroups c cmds n r # es) = r # poolResults es"
| "poolResults (e # es) = poolResults es"

text \<open>What \<open>updateDB\<close> answered.\<close>

fun dbResponses :: "event list \<Rightarrow> (PullStatus \<times> error option) list" where
  "dbResponses [] = []"
| "dbResponses (EvUpdateDB c pull prs r # es) = r # dbResponses es"
| "dbResponses (e # es) = dbResponses es"

text \<open>What \<open>GetPullStatus\<close> answered.\<close>

fun pullStatusResponses :: "event list \<Rightarrow> (PullStatus option \<times> error option) list" where
  "pullStatusResponses [] = []"
| "pullStatusResponses (EvGetPullStatus pull r # es) = r # pullStatusResponses es"
| "pullStatusResponses (e # es) = pullStatusResponses es"

text \<open>The events after the call of the command builder.\<close>

definition afterBuild :: "event list \<Rightarrow> event list" where
  "afterBuild es = tl (dropWhile (\<lambda>e. kindOf e \<noteq> KBuild) es)"

text \<open>The commands of a kind, as \<open>partitionProjectCmds\<close> selects them.\<close>

definition cmdsOf :: "Name \<Rightarrow> ProjectContext list \<Rightarrow> ProjectContext list" where
  "cmdsOf nm cmds = filter (\<lambda>c. CommandName c = nm) cmds"

text \<open>
  The result the pass holds after the lock and execution step (lines 164-183 and 332-351),
  read back from the trace: the failed lock results when a lock attempt failed, else what
  the execution pool returned.
\<close>

definition batchResult :: "event list \<Rightarrow> Result" where
  "batchResult es =
     (if lockFailures es \<noteq> [] then Result_zero\<lparr>ProjectResults := lockFailures es\<rparr>
      else (case poolResults es of [] \<Rightarrow> Result_zero | r # rs \<Rightarrow> r))"

text \<open>
  The directories handed to \<open>DeletePlans\<close>, and what \<open>GetPullDir\<close> answered when it was
  asked for the directory of a given pull of a given repository.
\<close>

fun deletedDirs :: "event list \<Rightarrow> string list" where
  "deletedDirs [] = []"
| "deletedDirs (EvDeletePlans d # es) = d # deletedDirs es"
| "deletedDirs (e # es) = deletedDirs es"

fun pullDirAnswers :: "Repo \<Rightarrow> PullRequest \<Rightarrow> event list \<Rightarrow> (string \<times> error option) list" where
  "pullDirAnswers repo pull [] = []"
| "pullDirAnswers repo pull (EvGetPullDir r q gd # es) =
     (if r = repo \<and> q = pull then gd # pullDirAnswers repo pull es
      else pullDirAnswers repo pull es)"
| "pullDirAnswers repo pull (e # es) = pullDirAnswers repo pull es"

text \<open>
  The number of times a pass deletes the plans of the pull before it tries any lock: once,
  except in a comment pass for one specific project (lines 127-129 and 294-296).
\<close>

definition staleDeletions :: "Context \<Rightarrow> CommentCommand \<Rightarrow> nat" where
  "staleDeletions ctx cmd =
     (if Trigger ctx = AutoTrigger \<or> \<not> IsForSpecificProject cmd then 1 else 0)"

text \<open>
  The calls \<open>run\<close> makes before it asks the command builder, given what
  \<open>FetchPullStatus\<close> answered (lines 222-239).
\<close>

definition commentPrelude ::
  "PlanCommandRunner \<Rightarrow> Context \<Rightarrow> PullReqStatus \<times> error option \<Rightarrow> event list" where
  "commentPrelude p ctx fr =
     EvFetchPullStatus (Pull ctx) fr
     # (if DiscardApprovalOnPlan p
        then [EvDiscardReviews (BaseRepo (Pull ctx)) (Pull ctx)] else [])
     @ [EvUpdateCombined (BaseRepo (Pull ctx)) (Pull ctx) PendingCommitStatus Plan]"

subsection \<open>A concrete pull request and runner\<close>

text \<open>
  One pull request of one repository, with collaborators that always succeed: every lock is
  acquired, every plan succeeds, the database stores what it is given. The scenarios below
  change one collaborator at a time.
\<close>

definition ex_repo :: Repo where
  "ex_repo = \<lparr>FullName = ''acme/infra''\<rparr>"

definition ex_pull :: PullRequest where
  "ex_pull = \<lparr>BaseRepo = ex_repo, Num = 7\<rparr>"

definition ex_ctx :: "Trigger \<Rightarrow> Context" where
  "ex_ctx tr = \<lparr>Pull = ex_pull, Trigger = tr, PullStatus = None,
                 PullRequestStatus = \<lparr>Approved = False, Mergeable = False\<rparr>\<rparr>"

definition ex_project :: "Name \<Rightarrow> string \<Rightarrow> ProjectContext" where
  "ex_project nm dir =
     \<lparr>CommandName = nm, RepoRelDir = dir, Workspace = ''default'', ProjectName = [],
      ParallelPlanEnabled = False, RepoLocking = True, pc_Pull = ex_pull, User = ''alice''\<rparr>"

definition ex_comment :: "bool \<Rightarrow> CommentCommand" where
  "ex_comment specific =
     \<lparr>cc_RepoRelDir = (if specific then ''vpc'' else []), cc_Workspace = [],
      cc_ProjectName = [], IsForSpecificProject = specific\<rparr>"

definition ex_planned :: "ProjectContext \<Rightarrow> ProjectResult" where
  "ex_planned pctx =
     \<lparr>pr_Command = Plan, pr_PlanSuccess = Some ''1 to add'', pr_Error = None,
      pr_Failure = [], pr_RepoRelDir = RepoRelDir pctx, pr_Workspace = Workspace pctx,
      pr_ProjectName = ProjectName pctx\<rparr>"

definition ex_failed :: "ProjectResult \<Rightarrow> bool" where
  "ex_failed r = (pr_Error r \<noteq> None \<or> pr_Failure r \<noteq> [])"

definition ex_hasErrors :: "Result \<Rightarrow> bool" where
  "ex_hasErrors res =
     (Error res \<noteq> None \<or> Failure res \<noteq> [] \<or> list_ex ex_failed (ProjectResults res))"

definition ex_status :: "ProjectResult \<Rightarrow> ProjectStatus" where
  "ex_status r =
     \<lparr>ps_Workspace = pr_Workspace r, ps_RepoRelDir = pr_RepoRelDir r,
      ps_ProjectName = pr_ProjectName r,
      Status = (if ex_failed r then ErroredPlanStatus else PlannedPlanStatus)\<rparr>"

definition ex_runner :: "ProjectContext list \<Rightarrow> PlanCommandRunner" where
  "ex_runner cmds =
     \<lparr>SilenceNoProjects = False, silenceVCSStatusNoPlans = False,
      silenceVCSStatusNoProjects = False, parallelPoolSize = 15,
      DiscardApprovalOnPlan = False,
      BuildAutoplanCommands = (\<lambda>t c. (cmds, None)),
      BuildPlanCommands = (\<lambda>t c cmd. (cmds, None)),
      GetPullDir = (\<lambda>t repo pull. (''/data/acme/infra/7'', None)),
      projectLocker = Some (\<lambda>t pctx. Inr \<lparr>LockAcquired = True, LockFailureReason = []\<rparr>),
      runProjectCmds = (\<lambda>t cs. Result_zero\<lparr>ProjectResults := map ex_planned cs\<rparr>),
      runProjectCmdsParallelGroups =
        (\<lambda>t c cs n. Result_zero\<lparr>ProjectResults := map ex_planned cs\<rparr>),
      updateDB = (\<lambda>t c pull prs. (\<lparr>Projects = map ex_status prs\<rparr>, None)),
      FetchPullStatus = (\<lambda>t pull. (\<lparr>Approved = True, Mergeable = True\<rparr>, None)),
      GetPullStatus = (\<lambda>t pull. (None, None)),
      HasErrors = ex_hasErrors,
      automergeEnabled = (\<lambda>cs. False)\<rparr>"

text \<open>A locker under which the project in directory \<open>vpc\<close> is held by another pull.\<close>

definition ex_locker_conflict :: "event list \<Rightarrow> ProjectContext \<Rightarrow> error + TryLockResponse" where
  "ex_locker_conflict t pctx =
     (if RepoRelDir pctx = ''vpc''
      then Inr \<lparr>LockAcquired = False, LockFailureReason = ''locked by pull 3''\<rparr>
      else Inr \<lparr>LockAcquired = True, LockFailureReason = []\<rparr>)"

text \<open>A persisted pull status of three projects: one errored plan, one plan, one applied.\<close>

definition ex_projectStatus :: "string \<Rightarrow> ProjectPlanStatus \<Rightarrow> ProjectStatus" where
  "ex_projectStatus dir st =
     \<lparr>ps_Workspace = ''default'', ps_RepoRelDir = dir, ps_ProjectName = [], Status = st\<rparr>"

definition ex_pullStatus_mixed :: PullStatus where
  "ex_pullStatus_mixed =
     \<lparr>Projects = [ex_projectStatus ''vpc'' ErroredPlanStatus,
                  ex_projectStatus ''dns'' PlannedPlanStatus,
                  ex_projectStatus ''iam'' AppliedPlanStatus]\<rparr>"

text \<open>Two projects: an apply that erred, and a plan that was never applied.\<close>

definition ex_pullStatus_applyErrored :: PullStatus where
  "ex_pullStatus_applyErrored =
     \<lparr>Projects = [ex_projectStatus ''vpc'' ErroredApplyStatus,
                  ex_projectStatus ''dns'' PlannedPlanStatus]\<rparr>"

text \<open>Three projects, one applied and two with a pending plan (the scenario of the spec).\<close>

definition ex_pullStatus_pending :: PullStatus where
  "ex_pullStatus_pending =
     \<lparr>Projects = [ex_projectStatus ''vpc'' AppliedPlanStatus,
                  ex_projectStatus ''dns'' PlannedPlanStatus,
                  ex_projectStatus ''iam'' PlannedPlanStatus]\<rparr>"

text \<open>Scenario: two Plan commands, the lock of \<open>vpc\<close> is held by another pull.\<close>

definition ex_runner_conflict :: PlanCommandRunner where
  "ex_runner_conflict =
     (ex_runner [ex_project Plan ''vpc'', ex_project Plan ''dns''])
       \<lparr>projectLocker := Some ex_locker_conflict\<rparr>"

definition ex_conflict_response :: "error + TryLockResponse" where
  "ex_conflict_response = Inr \<lparr>LockAcquired = False, LockFailureReason = ''locked by pull 3''\<rparr>"

text \<open>Scenario: the command builder fails.\<close>

definition ex_runner_buildError :: PlanCommandRunner where
  "ex_runner_buildError =
     (ex_runner [])
       \<lparr>BuildAutoplanCommands := (\<lambda>t c. ([], Some ''parsing atlantis.yaml'')),
        BuildPlanCommands := (\<lambda>t c cmd. ([], Some ''parsing atlantis.yaml''))\<rparr>"

text \<open>
  Scenario: a comment for one project that matches nothing, with \<open>SilenceNoProjects\<close> set
  and a pull status that cannot be fetched.
\<close>

definition ex_runner_silent :: PlanCommandRunner where
  "ex_runner_silent =
     (ex_runner [])
       \<lparr>SilenceNoProjects := True,
        GetPullStatus := (\<lambda>t pull. (None, Some ''database is closed''))\<rparr>"

text \<open>Scenario: the lock conflict above, with automerge enabled for the commands.\<close>

definition ex_runner_automerge :: PlanCommandRunner where
  "ex_runner_automerge = ex_runner_conflict\<lparr>automergeEnabled := (\<lambda>cs. True)\<rparr>"

text \<open>Scenario: one Plan command and its PolicyCheck command.\<close>

definition ex_cmds_planAndPolicy :: "ProjectContext list" where
  "ex_cmds_planAndPolicy = [ex_project Plan ''vpc'', ex_project PolicyCheck ''vpc'']"

text \<open>Scenario: one Plan command and no PolicyCheck command.\<close>

definition ex_cmds_planOnly :: "ProjectContext list" where
  "ex_cmds_planOnly = [ex_project Plan ''vpc'']"

text \<open>The context of the comment pass once \<open>FetchPullStatus\<close> has answered.\<close>

definition ex_ctx_fetched :: Context where
  "ex_ctx_fetched =
     (ex_ctx CommentTrigger)\<lparr>PullRequestStatus := \<lparr>Approved = True, Mergeable = True\<rparr>\<rparr>"

text \<open>Scenario: the plan succeeds and the final write to the database fails.\<close>

definition ex_runner_dbError :: PlanCommandRunner where
  "ex_runner_dbError =
     (ex_runner ex_cmds_planOnly)
       \<lparr>updateDB := (\<lambda>t c pull prs. (\<lparr>Projects = []\<rparr>, Some ''database is closed''))\<rparr>"

section \<open>Lemmas\<close>

subsection \<open>The helpers\<close>

lemma partitionLoop_eq:
  "partitionLoop cmds (a, b) = (a @ cmdsOf Plan cmds, b @ cmdsOf PolicyCheck cmds)"
proof (induction cmds arbitrary: a b)
  case Nil
  show ?case by (simp add: cmdsOf_def)
next
  case (Cons c cmds)
  show ?case
    by (cases "CommandName c") (simp_all add: Cons.IH cmdsOf_def)
qed

lemma partitionProjectCmds_eq:
  "partitionProjectCmds cmds = (cmdsOf Plan cmds, cmdsOf PolicyCheck cmds)"
  by (simp add: partitionProjectCmds_def partitionLoop_eq)

lemma deletePlans_eq:
  "deletePlans p ctx t =
     t @ [EvGetPullDir (BaseRepo (Pull ctx)) (Pull ctx)
            (GetPullDir p t (BaseRepo (Pull ctx)) (Pull ctx)),
          EvDeletePlans (fst (GetPullDir p t (BaseRepo (Pull ctx)) (Pull ctx)))]"
  by (simp add: deletePlans_def Let_def split: prod.splits)

lemma updateCommitStatus_append:
  "updateCommitStatus ctx ps nm t = t @ updateCommitStatus ctx ps nm []"
  by (simp add: updateCommitStatus_def Let_def)

lemma updateCommitStatus_kind:
  "e \<in> set (updateCommitStatus ctx ps nm []) \<Longrightarrow> kindOf e = KStatus"
  by (auto simp: updateCommitStatus_def Let_def split: if_splits)

lemma eventsOf_append [simp]: "eventsOf k (xs @ ys) = eventsOf k xs @ eventsOf k ys"
  by (simp add: eventsOf_def)

lemma eventsOf_Nil [simp]: "eventsOf k [] = []"
  by (simp add: eventsOf_def)

lemma eventsOf_Cons [simp]:
  "eventsOf k (e # es) = (if kindOf e = k then e # eventsOf k es else eventsOf k es)"
  by (simp add: eventsOf_def)

lemma eventsOf_same: "\<forall>e\<in>set es. kindOf e = k' \<Longrightarrow> eventsOf k es = (if k = k' then es else [])"
  by (induction es) auto

lemma attempted_append [simp]: "attempted (xs @ ys) = attempted xs @ attempted ys"
  by (induction xs rule: attempted.induct) simp_all

lemma lockFailures_append [simp]: "lockFailures (xs @ ys) = lockFailures xs @ lockFailures ys"
  by (induction xs rule: lockFailures.induct) simp_all

lemma builtCmds_append [simp]: "builtCmds (xs @ ys) = builtCmds xs @ builtCmds ys"
  by (induction xs rule: builtCmds.induct) simp_all

lemma postedResults_append [simp]: "postedResults (xs @ ys) = postedResults xs @ postedResults ys"
  by (induction xs rule: postedResults.induct) simp_all

lemma poolResults_append [simp]: "poolResults (xs @ ys) = poolResults xs @ poolResults ys"
  by (induction xs rule: poolResults.induct) simp_all

lemma dbResponses_append [simp]: "dbResponses (xs @ ys) = dbResponses xs @ dbResponses ys"
  by (induction xs rule: dbResponses.induct) simp_all

lemma pullStatusResponses_append [simp]:
  "pullStatusResponses (xs @ ys) = pullStatusResponses xs @ pullStatusResponses ys"
  by (induction xs rule: pullStatusResponses.induct) simp_all

lemma attempted_other: "\<forall>e\<in>set es. kindOf e \<noteq> KTryLock \<Longrightarrow> attempted es = []"
  by (induction es rule: attempted.induct) simp_all

lemma lockFailures_other: "\<forall>e\<in>set es. kindOf e \<noteq> KTryLock \<Longrightarrow> lockFailures es = []"
  by (induction es rule: lockFailures.induct) simp_all

lemma builtCmds_other: "\<forall>e\<in>set es. kindOf e \<noteq> KBuild \<Longrightarrow> builtCmds es = []"
  by (induction es rule: builtCmds.induct) simp_all

lemma postedResults_other: "\<forall>e\<in>set es. kindOf e \<noteq> KUpdatePull \<Longrightarrow> postedResults es = []"
  by (induction es rule: postedResults.induct) simp_all

lemma poolResults_other: "\<forall>e\<in>set es. kindOf e \<noteq> KExecution \<Longrightarrow> poolResults es = []"
  by (induction es rule: poolResults.induct) simp_all

lemma dbResponses_other: "\<forall>e\<in>set es. kindOf e \<noteq> KUpdateDB \<Longrightarrow> dbResponses es = []"
  by (induction es rule: dbResponses.induct) simp_all

lemma pullStatusResponses_other:
  "\<forall>e\<in>set es. kindOf e \<noteq> KGetPullStatus \<Longrightarrow> pullStatusResponses es = []"
  by (induction es rule: pullStatusResponses.induct) simp_all

lemma lockFailures_mem:
  "EvTryLock pc r \<in> set es \<Longrightarrow> lockFailed r \<Longrightarrow> lockFailures es \<noteq> []"
  by (induction es rule: lockFailures.induct) auto

lemma lockResult_failed:
  "(pr_Error (lockResult pctx r) \<noteq> None \<or> pr_Failure (lockResult pctx r) \<noteq> []) = lockFailed r"
  by (cases r) (simp_all add: lockResult_def lockFailed_def)

lemma lockLoop_shape:
  "lockLoop locker cmds (prs, t) = (prs', t') \<Longrightarrow>
     \<exists>es. t' = t @ es \<and> (\<forall>e\<in>set es. kindOf e = KTryLock) \<and> attempted es = cmds
           \<and> prs' = prs @ lockFailures es"
proof (induction cmds arbitrary: prs t)
  case Nil
  then show ?case by simp
next
  case (Cons pctx cmds)
  let ?r = "locker t pctx"
  let ?t = "t @ [EvTryLock pctx ?r]"
  let ?prs = "if lockFailed ?r then prs @ [lockResult pctx ?r] else prs"
  have "(pr_Error (lockResult pctx ?r) \<noteq> None \<or> pr_Failure (lockResult pctx ?r) \<noteq> [])
          = lockFailed ?r"
    by (rule lockResult_failed)
  with Cons.prems have "lockLoop locker cmds (?prs, ?t) = (prs', t')"
    by (cases "lockFailed ?r") (simp_all add: Let_def del: not_None_eq)
  from Cons.IH [OF this] obtain es where es:
    "t' = ?t @ es" "\<forall>e\<in>set es. kindOf e = KTryLock" "attempted es = cmds"
    "prs' = ?prs @ lockFailures es"
    by blast
  show ?case
  proof (intro exI conjI)
    show "t' = t @ (EvTryLock pctx ?r # es)" using es by simp
    show "\<forall>e\<in>set (EvTryLock pctx ?r # es). kindOf e = KTryLock" using es by simp
    show "attempted (EvTryLock pctx ?r # es) = pctx # cmds" using es by simp
    show "prs' = prs @ lockFailures (EvTryLock pctx ?r # es)" using es by simp
  qed
qed

subsection \<open>The shape of a pass\<close>

lemma updateCommitStatus_nonempty:
  "t \<noteq> [] \<Longrightarrow> updateCommitStatus ctx ps nm t = t @ updateCommitStatus ctx ps nm []"
  by (rule updateCommitStatus_append)

lemma batch_shape:
  assumes L: "(case projectLocker p of
                 None \<Rightarrow> ([], t4)
               | Some locker \<Rightarrow> lockLoop locker pcs ([], t4)) = (prs, t5)"
      and E: "(if length prs > 0 then
                 (Result_zero\<lparr>ProjectResults := prs\<rparr>,
                  t5 @ [EvUnlockByPull nm n])
               else if isParallelEnabled pcs then
                 (let r = runProjectCmdsParallelGroups p t5 ctx pcs (parallelPoolSize p)
                  in (r, t5 @ [EvRunProjectCmdsParallelGroups ctx pcs (parallelPoolSize p) r]))
               else
                 (let r = runProjectCmds p t5 pcs
                  in (r, t5 @ [EvRunProjectCmds pcs r]))) = (res0, t6)"
      and M: "(if automergeEnabled p pcs \<and> HasErrors p res0 then
                 (res0\<lparr>PlansDeleted := True\<rparr>, deletePlans p ctx t6)
               else (res0, t6)) = (res, t7)"
  obtains les mid dels where
    "t7 = t4 @ les @ mid # dels"
    "\<forall>e\<in>set les. kindOf e = KTryLock"
    "attempted les = (if projectLocker p = None then [] else pcs)"
    "lockFailures les \<noteq> [] \<longrightarrow>
       mid = EvUnlockByPull nm n
       \<and> res0 = Result_zero\<lparr>ProjectResults := lockFailures les\<rparr>"
    "lockFailures les = [] \<longrightarrow> kindOf mid = KExecution \<and> poolResults [mid] = [res0]"
    "automergeEnabled p pcs \<and> HasErrors p res0 \<longrightarrow>
       res = res0\<lparr>PlansDeleted := True\<rparr>
       \<and> (\<exists>gd. dels = [EvGetPullDir (BaseRepo (Pull ctx)) (Pull ctx) gd, EvDeletePlans (fst gd)])"
    "\<not> (automergeEnabled p pcs \<and> HasErrors p res0) \<longrightarrow> res = res0 \<and> dels = []"
proof -
  have "\<exists>les. t5 = t4 @ les \<and> (\<forall>e\<in>set les. kindOf e = KTryLock)
          \<and> attempted les = (if projectLocker p = None then [] else pcs)
          \<and> prs = lockFailures les"
  proof (cases "projectLocker p")
    case None
    with L show ?thesis by simp
  next
    case (Some locker)
    with L have "lockLoop locker pcs ([], t4) = (prs, t5)" by simp
    from lockLoop_shape [OF this] Some show ?thesis by auto
  qed
  then obtain les where les: "t5 = t4 @ les" "\<forall>e\<in>set les. kindOf e = KTryLock"
      "attempted les = (if projectLocker p = None then [] else pcs)" "prs = lockFailures les"
    by blast
  from E have "\<exists>mid. t6 = t5 @ [mid]
      \<and> (prs \<noteq> [] \<longrightarrow> mid = EvUnlockByPull nm n
            \<and> res0 = Result_zero\<lparr>ProjectResults := prs\<rparr>)
      \<and> (prs = [] \<longrightarrow> kindOf mid = KExecution \<and> poolResults [mid] = [res0])"
    by (auto simp: Let_def split: if_splits)
  then obtain mid where mid: "t6 = t5 @ [mid]"
      "prs \<noteq> [] \<Longrightarrow> mid = EvUnlockByPull nm n
            \<and> res0 = Result_zero\<lparr>ProjectResults := prs\<rparr>"
      "prs = [] \<Longrightarrow> kindOf mid = KExecution \<and> poolResults [mid] = [res0]"
    by blast
  have "\<exists>dels. t7 = t6 @ dels
      \<and> (automergeEnabled p pcs \<and> HasErrors p res0 \<longrightarrow>
            res = res0\<lparr>PlansDeleted := True\<rparr>
            \<and> (\<exists>gd. dels = [EvGetPullDir (BaseRepo (Pull ctx)) (Pull ctx) gd,
                             EvDeletePlans (fst gd)]))
      \<and> (\<not> (automergeEnabled p pcs \<and> HasErrors p res0) \<longrightarrow> res = res0 \<and> dels = [])"
  proof (cases "automergeEnabled p pcs \<and> HasErrors p res0")
    case True
    let ?gd = "GetPullDir p t6 (BaseRepo (Pull ctx)) (Pull ctx)"
    from True M have "res = res0\<lparr>PlansDeleted := True\<rparr>"
      and "t7 = t6 @ [EvGetPullDir (BaseRepo (Pull ctx)) (Pull ctx) ?gd, EvDeletePlans (fst ?gd)]"
      by (simp_all add: deletePlans_eq)
    with True show ?thesis by blast
  next
    case False
    with M have "res = res0" and "t7 = t6 @ []" by auto
    with False show ?thesis by blast
  qed
  then obtain dels where dels: "t7 = t6 @ dels"
      "automergeEnabled p pcs \<and> HasErrors p res0 \<longrightarrow>
            res = res0\<lparr>PlansDeleted := True\<rparr>
            \<and> (\<exists>gd. dels = [EvGetPullDir (BaseRepo (Pull ctx)) (Pull ctx) gd,
                             EvDeletePlans (fst gd)])"
      "\<not> (automergeEnabled p pcs \<and> HasErrors p res0) \<longrightarrow> res = res0 \<and> dels = []"
    by blast
  show thesis
  proof (rule that [of les mid dels])
    show "t7 = t4 @ les @ mid # dels" using les(1) mid(1) dels(1) by simp
  qed (use les mid dels in auto)
qed

lemma runAutoplan_unfold:
  assumes B: "BuildAutoplanCommands p [] ctx = (cmds, None)"
      and P: "partitionProjectCmds cmds = (pcs, pols)" and ne: "pcs \<noteq> []"
      and t4: "t4 = deletePlans p ctx
             [EvBuildAutoplanCommands ctx (cmds, None),
              EvUpdateCombined (BaseRepo (Pull ctx)) (Pull ctx) PendingCommitStatus Plan]
           @ [EvUnlockByPull (FullName (BaseRepo (Pull ctx))) (Num (Pull ctx))]"
      and L: "(case projectLocker p of
                 None \<Rightarrow> ([], t4)
               | Some locker \<Rightarrow> lockLoop locker pcs ([], t4)) = (prs, t5)"
      and E: "(if length prs > 0 then
                 (Result_zero\<lparr>ProjectResults := prs\<rparr>,
                  t5 @ [EvUnlockByPull (FullName (BaseRepo (Pull ctx))) (Num (Pull ctx))])
               else if isParallelEnabled pcs then
                 (let r = runProjectCmdsParallelGroups p t5 ctx pcs (parallelPoolSize p)
                  in (r, t5 @ [EvRunProjectCmdsParallelGroups ctx pcs (parallelPoolSize p) r]))
               else
                 (let r = runProjectCmds p t5 pcs
                  in (r, t5 @ [EvRunProjectCmds pcs r]))) = (res0, t6)"
      and M: "(if automergeEnabled p pcs \<and> HasErrors p res0 then
                 (res0\<lparr>PlansDeleted := True\<rparr>, deletePlans p ctx t6)
               else (res0, t6)) = (res, t7)"
      and D: "updateDB p (t7 @ [EvUpdatePull ctx AutoplanCommand res]) ctx (Pull ctx)
                (ProjectResults res) = (ps, dberr)"
  shows "runAutoplan p ctx =
     (if pols \<noteq> [] \<and> \<not> (HasErrors p res \<or> PlansDeleted res)
      then ctx\<lparr>PullStatus := Some ps\<rparr> else ctx,
      t7 @ [EvUpdatePull ctx AutoplanCommand res,
            EvUpdateDB ctx (Pull ctx) (ProjectResults res) (ps, dberr)]
         @ updateCommitStatus ctx ps Plan [] @ updateCommitStatus ctx ps Apply []
         @ (if pols \<noteq> [] \<and> \<not> (HasErrors p res \<or> PlansDeleted res)
            then [EvPolicyCheckRun (ctx\<lparr>PullStatus := Some ps\<rparr>) pols] else []))"
proof -
  have "runAutoplan p ctx =
     (let t = updateCommitStatus ctx ps Apply
                (updateCommitStatus ctx ps Plan
                   (t7 @ [EvUpdatePull ctx AutoplanCommand res,
                          EvUpdateDB ctx (Pull ctx) (ProjectResults res) (ps, dberr)]))
      in if pols \<noteq> [] \<and> \<not> (HasErrors p res \<or> PlansDeleted res) then
           (ctx\<lparr>PullStatus := Some ps\<rparr>,
            t @ [EvPolicyCheckRun (ctx\<lparr>PullStatus := Some ps\<rparr>) pols])
         else (ctx, t))"
    unfolding runAutoplan_def
    using B P ne L E M D unfolding t4
    by (simp add: Let_def)
  then show ?thesis
    by (simp add: Let_def updateCommitStatus_nonempty)
qed

lemma runAutoplan_cases [case_names BuildError Zero Main]:
  obtains
    (BuildError) cmds e where
      "runAutoplan p ctx =
         (ctx, [EvBuildAutoplanCommands ctx (cmds, Some e),
                EvUpdateCombined (BaseRepo (Pull ctx)) (Pull ctx) FailedCommitStatus Plan,
                EvUpdatePull ctx AutoplanCommand (Result_zero\<lparr>Error := Some e\<rparr>)])"
  | (Zero) cmds where
      "cmdsOf Plan cmds = []"
      "runAutoplan p ctx =
         (ctx, EvBuildAutoplanCommands ctx (cmds, None)
               # (if silenceVCSStatusNoPlans p \<or> silenceVCSStatusNoProjects p then []
                  else [EvUpdateCombinedCount (BaseRepo (Pull ctx)) (Pull ctx)
                          SuccessCommitStatus Plan 0 0,
                        EvUpdateCombinedCount (BaseRepo (Pull ctx)) (Pull ctx)
                          SuccessCommitStatus PolicyCheck 0 0,
                        EvUpdateCombinedCount (BaseRepo (Pull ctx)) (Pull ctx)
                          SuccessCommitStatus Apply 0 0]))"
  | (Main) cmds gd les mid dels res0 res ps dberr where
      "cmdsOf Plan cmds \<noteq> []"
      "\<forall>e\<in>set les. kindOf e = KTryLock"
      "attempted les = (if projectLocker p = None then [] else cmdsOf Plan cmds)"
      "lockFailures les \<noteq> [] \<longrightarrow>
         mid = EvUnlockByPull (FullName (BaseRepo (Pull ctx))) (Num (Pull ctx))
         \<and> res0 = Result_zero\<lparr>ProjectResults := lockFailures les\<rparr>"
      "lockFailures les = [] \<longrightarrow> kindOf mid = KExecution \<and> poolResults [mid] = [res0]"
      "automergeEnabled p (cmdsOf Plan cmds) \<and> HasErrors p res0 \<longrightarrow>
         res = res0\<lparr>PlansDeleted := True\<rparr>
         \<and> (\<exists>gd. dels = [EvGetPullDir (BaseRepo (Pull ctx)) (Pull ctx) gd,
                          EvDeletePlans (fst gd)])"
      "\<not> (automergeEnabled p (cmdsOf Plan cmds) \<and> HasErrors p res0) \<longrightarrow>
         res = res0 \<and> dels = []"
      "runAutoplan p ctx =
         (if cmdsOf PolicyCheck cmds \<noteq> [] \<and> \<not> (HasErrors p res \<or> PlansDeleted res)
          then ctx\<lparr>PullStatus := Some ps\<rparr> else ctx,
          [EvBuildAutoplanCommands ctx (cmds, None),
           EvUpdateCombined (BaseRepo (Pull ctx)) (Pull ctx) PendingCommitStatus Plan,
           EvGetPullDir (BaseRepo (Pull ctx)) (Pull ctx) gd,
           EvDeletePlans (fst gd),
           EvUnlockByPull (FullName (BaseRepo (Pull ctx))) (Num (Pull ctx))]
          @ les @ mid # dels
          @ [EvUpdatePull ctx AutoplanCommand res,
             EvUpdateDB ctx (Pull ctx) (ProjectResults res) (ps, dberr)]
          @ updateCommitStatus ctx ps Plan [] @ updateCommitStatus ctx ps Apply []
          @ (if cmdsOf PolicyCheck cmds \<noteq> [] \<and> \<not> (HasErrors p res \<or> PlansDeleted res)
             then [EvPolicyCheckRun (ctx\<lparr>PullStatus := Some ps\<rparr>) (cmdsOf PolicyCheck cmds)]
             else []))"
proof -
  obtain cmds err where B: "BuildAutoplanCommands p [] ctx = (cmds, err)"
    by (cases "BuildAutoplanCommands p [] ctx") blast
  have P: "partitionProjectCmds cmds = (cmdsOf Plan cmds, cmdsOf PolicyCheck cmds)"
    by (rule partitionProjectCmds_eq)
  show thesis
  proof (cases err)
    case (Some e)
    with B have "runAutoplan p ctx =
         (ctx, [EvBuildAutoplanCommands ctx (cmds, Some e),
                EvUpdateCombined (BaseRepo (Pull ctx)) (Pull ctx) FailedCommitStatus Plan,
                EvUpdatePull ctx AutoplanCommand (Result_zero\<lparr>Error := Some e\<rparr>)])"
      by (simp add: runAutoplan_def Let_def)
    then show thesis by (rule BuildError)
  next
    case None
    show thesis
    proof (cases "cmdsOf Plan cmds = []")
      case True
      with B None P have "runAutoplan p ctx =
         (ctx, EvBuildAutoplanCommands ctx (cmds, None)
               # (if silenceVCSStatusNoPlans p \<or> silenceVCSStatusNoProjects p then []
                  else [EvUpdateCombinedCount (BaseRepo (Pull ctx)) (Pull ctx)
                          SuccessCommitStatus Plan 0 0,
                        EvUpdateCombinedCount (BaseRepo (Pull ctx)) (Pull ctx)
                          SuccessCommitStatus PolicyCheck 0 0,
                        EvUpdateCombinedCount (BaseRepo (Pull ctx)) (Pull ctx)
                          SuccessCommitStatus Apply 0 0]))"
        by (simp add: runAutoplan_def Let_def)
      with True show thesis by (rule Zero)
    next
      case False
      let ?pcs = "cmdsOf Plan cmds"
      let ?t2 = "[EvBuildAutoplanCommands ctx (cmds, None),
              EvUpdateCombined (BaseRepo (Pull ctx)) (Pull ctx) PendingCommitStatus Plan]"
      let ?gd = "GetPullDir p ?t2 (BaseRepo (Pull ctx)) (Pull ctx)"
      define t4 where "t4 = deletePlans p ctx ?t2
           @ [EvUnlockByPull (FullName (BaseRepo (Pull ctx))) (Num (Pull ctx))]"
      obtain prs t5 where L: "(case projectLocker p of
                 None \<Rightarrow> ([], t4)
               | Some locker \<Rightarrow> lockLoop locker ?pcs ([], t4)) = (prs, t5)"
        by (rule prod.exhaust)
      obtain res0 t6 where E: "(if length prs > 0 then
                 (Result_zero\<lparr>ProjectResults := prs\<rparr>,
                  t5 @ [EvUnlockByPull (FullName (BaseRepo (Pull ctx))) (Num (Pull ctx))])
               else if isParallelEnabled ?pcs then
                 (let r = runProjectCmdsParallelGroups p t5 ctx ?pcs (parallelPoolSize p)
                  in (r, t5 @ [EvRunProjectCmdsParallelGroups ctx ?pcs (parallelPoolSize p) r]))
               else
                 (let r = runProjectCmds p t5 ?pcs
                  in (r, t5 @ [EvRunProjectCmds ?pcs r]))) = (res0, t6)"
        by (rule prod.exhaust)
      obtain res t7 where M: "(if automergeEnabled p ?pcs \<and> HasErrors p res0 then
                 (res0\<lparr>PlansDeleted := True\<rparr>, deletePlans p ctx t6)
               else (res0, t6)) = (res, t7)"
        by (rule prod.exhaust)
      obtain ps dberr where D:
        "updateDB p (t7 @ [EvUpdatePull ctx AutoplanCommand res]) ctx (Pull ctx)
                (ProjectResults res) = (ps, dberr)"
        by (rule prod.exhaust)
      from B None have B': "BuildAutoplanCommands p [] ctx = (cmds, None)" by simp
      note U = runAutoplan_unfold [OF B' P False t4_def L E M D]
      from batch_shape [OF L E M] obtain les mid dels where S:
        "t7 = t4 @ les @ mid # dels"
        "\<forall>e\<in>set les. kindOf e = KTryLock"
        "attempted les = (if projectLocker p = None then [] else ?pcs)"
        "lockFailures les \<noteq> [] \<longrightarrow>
           mid = EvUnlockByPull (FullName (BaseRepo (Pull ctx))) (Num (Pull ctx))
           \<and> res0 = Result_zero\<lparr>ProjectResults := lockFailures les\<rparr>"
        "lockFailures les = [] \<longrightarrow> kindOf mid = KExecution \<and> poolResults [mid] = [res0]"
        "automergeEnabled p ?pcs \<and> HasErrors p res0 \<longrightarrow>
           res = res0\<lparr>PlansDeleted := True\<rparr>
           \<and> (\<exists>gd. dels = [EvGetPullDir (BaseRepo (Pull ctx)) (Pull ctx) gd,
                            EvDeletePlans (fst gd)])"
        "\<not> (automergeEnabled p ?pcs \<and> HasErrors p res0) \<longrightarrow> res = res0 \<and> dels = []"
        by blast
      show thesis
      proof (rule Main [where cmds = cmds and les = les and mid = mid and ?res0.0 = res0
            and res = res and dels = dels and gd = ?gd and ps = ps and dberr = dberr])
        show "runAutoplan p ctx =
         (if cmdsOf PolicyCheck cmds \<noteq> [] \<and> \<not> (HasErrors p res \<or> PlansDeleted res)
          then ctx\<lparr>PullStatus := Some ps\<rparr> else ctx,
          [EvBuildAutoplanCommands ctx (cmds, None),
           EvUpdateCombined (BaseRepo (Pull ctx)) (Pull ctx) PendingCommitStatus Plan,
           EvGetPullDir (BaseRepo (Pull ctx)) (Pull ctx) ?gd,
           EvDeletePlans (fst ?gd),
           EvUnlockByPull (FullName (BaseRepo (Pull ctx))) (Num (Pull ctx))]
          @ les @ mid # dels
          @ [EvUpdatePull ctx AutoplanCommand res,
             EvUpdateDB ctx (Pull ctx) (ProjectResults res) (ps, dberr)]
          @ updateCommitStatus ctx ps Plan [] @ updateCommitStatus ctx ps Apply []
          @ (if cmdsOf PolicyCheck cmds \<noteq> [] \<and> \<not> (HasErrors p res \<or> PlansDeleted res)
             then [EvPolicyCheckRun (ctx\<lparr>PullStatus := Some ps\<rparr>) (cmdsOf PolicyCheck cmds)]
             else []))"
          unfolding U S(1) t4_def by (simp add: deletePlans_eq)
      qed (use False S in auto)
    qed
  qed
qed

lemma run_unfold:
  assumes F: "FetchPullStatus p [] (Pull ctx) = (fq, ferr)"
      and c1: "ctx1 = ctx\<lparr>PullRequestStatus := fq\<rparr>"
      and t3: "t3 = [EvFetchPullStatus (Pull ctx) (fq, ferr)]
                 @ (if DiscardApprovalOnPlan p
                    then [EvDiscardReviews (BaseRepo (Pull ctx)) (Pull ctx)] else [])
                 @ [EvUpdateCombined (BaseRepo (Pull ctx)) (Pull ctx) PendingCommitStatus Plan]"
      and B: "BuildPlanCommands p t3 ctx1 cmd = (cmds, None)"
      and ns: "\<not> (cmds = [] \<and> SilenceNoProjects p)"
      and P: "partitionProjectCmds cmds = (pcs, pols)"
      and t4: "t4 = (if \<not> IsForSpecificProject cmd then
                       deletePlans p ctx1 (t3 @ [EvBuildPlanCommands ctx1 cmd (cmds, None)])
                       @ [EvUnlockByPull (FullName (BaseRepo (Pull ctx))) (Num (Pull ctx))]
                     else t3 @ [EvBuildPlanCommands ctx1 cmd (cmds, None)])"
      and L: "(case projectLocker p of
                 None \<Rightarrow> ([], t4)
               | Some locker \<Rightarrow> lockLoop locker pcs ([], t4)) = (prs, t5)"
      and E: "(if length prs > 0 then
                 (Result_zero\<lparr>ProjectResults := prs\<rparr>,
                  t5 @ [EvUnlockByPull (FullName (BaseRepo (Pull ctx))) (Num (Pull ctx))])
               else if isParallelEnabled pcs then
                 (let r = runProjectCmdsParallelGroups p t5 ctx1 pcs (parallelPoolSize p)
                  in (r, t5 @ [EvRunProjectCmdsParallelGroups ctx1 pcs (parallelPoolSize p) r]))
               else
                 (let r = runProjectCmds p t5 pcs
                  in (r, t5 @ [EvRunProjectCmds pcs r]))) = (res0, t6)"
      and M: "(if automergeEnabled p pcs \<and> HasErrors p res0 then
                 (res0\<lparr>PlansDeleted := True\<rparr>, deletePlans p ctx1 t6)
               else (res0, t6)) = (res, t7)"
      and D: "updateDB p (t7 @ [EvUpdatePull ctx1 (CommentCmd cmd) res]) ctx1 (Pull ctx)
                (ProjectResults res) = (ps, dberr)"
  shows "run p ctx cmd =
     (ctx1,
      t7 @ [EvUpdatePull ctx1 (CommentCmd cmd) res,
            EvUpdateDB ctx1 (Pull ctx) (ProjectResults res) (ps, dberr)]
         @ (case dberr of
              Some e \<Rightarrow> []
            | None \<Rightarrow>
                updateCommitStatus ctx1 ps Plan [] @ updateCommitStatus ctx1 ps Apply []
                @ (if ProjectResults res \<noteq> [] \<and> \<not> (HasErrors p res \<or> PlansDeleted res)
                   then [EvPolicyCheckRun ctx1 pols]
                   else if pcs = [] \<and> \<not> IsForSpecificProject cmd
                   then [EvUpdateCombinedCount (BaseRepo (Pull ctx)) (Pull ctx)
                           SuccessCommitStatus PolicyCheck 0 0]
                   else [])))"
proof -
  have pull1: "Pull ctx1 = Pull ctx" by (simp add: c1)
  have "run p ctx cmd =
     (case dberr of
        Some e \<Rightarrow> (ctx1, t7 @ [EvUpdatePull ctx1 (CommentCmd cmd) res,
            EvUpdateDB ctx1 (Pull ctx) (ProjectResults res) (ps, dberr)])
      | None \<Rightarrow>
         (let t = updateCommitStatus ctx1 ps Apply
                (updateCommitStatus ctx1 ps Plan
                   (t7 @ [EvUpdatePull ctx1 (CommentCmd cmd) res,
                          EvUpdateDB ctx1 (Pull ctx) (ProjectResults res) (ps, dberr)]))
          in if ProjectResults res \<noteq> [] \<and> \<not> (HasErrors p res \<or> PlansDeleted res)
             then (ctx1, t @ [EvPolicyCheckRun ctx1 pols])
             else if pcs = [] \<and> \<not> IsForSpecificProject cmd
             then (ctx1, t @ [EvUpdateCombinedCount (BaseRepo (Pull ctx)) (Pull ctx)
                           SuccessCommitStatus PolicyCheck 0 0])
             else (ctx1, t)))"
  proof -
    have sil: "(length cmds = 0 \<and> SilenceNoProjects p) = False"
      using ns by simp
    show ?thesis
    proof (cases "IsForSpecificProject cmd")
      case S: True
      show ?thesis
      proof (cases "DiscardApprovalOnPlan p")
        case Dc: True
        have t3n: "t3 = [EvFetchPullStatus (Pull ctx) (fq, ferr),
              EvDiscardReviews (BaseRepo (Pull ctx)) (Pull ctx),
              EvUpdateCombined (BaseRepo (Pull ctx)) (Pull ctx) PendingCommitStatus Plan]"
          using t3 S Dc by simp
        have t4n: "t4 = [EvFetchPullStatus (Pull ctx) (fq, ferr),
              EvDiscardReviews (BaseRepo (Pull ctx)) (Pull ctx),
              EvUpdateCombined (BaseRepo (Pull ctx)) (Pull ctx) PendingCommitStatus Plan,
              EvBuildPlanCommands (ctx\<lparr>PullRequestStatus := fq\<rparr>) cmd (cmds, None)]"
          using t4 t3n S Dc by (simp add: c1)
        show ?thesis
          unfolding run_def
          using S Dc F B [unfolded t3n c1] P L [unfolded t4n] E [unfolded c1] M [unfolded c1]
            D [unfolded c1]
          unfolding c1
          by (cases dberr; simp add: Let_def sil del: length_0_conv; simp)
      next
        case Dc: False
        have t3n: "t3 = [EvFetchPullStatus (Pull ctx) (fq, ferr),
              EvUpdateCombined (BaseRepo (Pull ctx)) (Pull ctx) PendingCommitStatus Plan]"
          using t3 S Dc by simp
        have t4n: "t4 = [EvFetchPullStatus (Pull ctx) (fq, ferr),
              EvUpdateCombined (BaseRepo (Pull ctx)) (Pull ctx) PendingCommitStatus Plan,
              EvBuildPlanCommands (ctx\<lparr>PullRequestStatus := fq\<rparr>) cmd (cmds, None)]"
          using t4 t3n S Dc by (simp add: c1)
        show ?thesis
          unfolding run_def
          using S Dc F B [unfolded t3n c1] P L [unfolded t4n] E [unfolded c1] M [unfolded c1]
            D [unfolded c1]
          unfolding c1
          by (cases dberr; simp add: Let_def sil del: length_0_conv; simp)
      qed
    next
      case S: False
      show ?thesis
      proof (cases "DiscardApprovalOnPlan p")
        case Dc: True
        have t3n: "t3 = [EvFetchPullStatus (Pull ctx) (fq, ferr),
              EvDiscardReviews (BaseRepo (Pull ctx)) (Pull ctx),
              EvUpdateCombined (BaseRepo (Pull ctx)) (Pull ctx) PendingCommitStatus Plan]"
          using t3 S Dc by simp
        have t4n: "t4 = deletePlans p (ctx\<lparr>PullRequestStatus := fq\<rparr>)
             [EvFetchPullStatus (Pull ctx) (fq, ferr),
              EvDiscardReviews (BaseRepo (Pull ctx)) (Pull ctx),
              EvUpdateCombined (BaseRepo (Pull ctx)) (Pull ctx) PendingCommitStatus Plan,
              EvBuildPlanCommands (ctx\<lparr>PullRequestStatus := fq\<rparr>) cmd (cmds, None)]
             @ [EvUnlockByPull (FullName (BaseRepo (Pull ctx))) (Num (Pull ctx))]"
          using t4 t3n S Dc by (simp add: c1)
        show ?thesis
          unfolding run_def
          using S Dc F B [unfolded t3n c1] P L [unfolded t4n] E [unfolded c1] M [unfolded c1]
            D [unfolded c1]
          unfolding c1
          by (cases dberr; simp add: Let_def sil del: length_0_conv; simp)
      next
        case Dc: False
        have t3n: "t3 = [EvFetchPullStatus (Pull ctx) (fq, ferr),
              EvUpdateCombined (BaseRepo (Pull ctx)) (Pull ctx) PendingCommitStatus Plan]"
          using t3 S Dc by simp
        have t4n: "t4 = deletePlans p (ctx\<lparr>PullRequestStatus := fq\<rparr>)
             [EvFetchPullStatus (Pull ctx) (fq, ferr),
              EvUpdateCombined (BaseRepo (Pull ctx)) (Pull ctx) PendingCommitStatus Plan,
              EvBuildPlanCommands (ctx\<lparr>PullRequestStatus := fq\<rparr>) cmd (cmds, None)]
             @ [EvUnlockByPull (FullName (BaseRepo (Pull ctx))) (Num (Pull ctx))]"
          using t4 t3n S Dc by (simp add: c1)
        show ?thesis
          unfolding run_def
          using S Dc F B [unfolded t3n c1] P L [unfolded t4n] E [unfolded c1] M [unfolded c1]
            D [unfolded c1]
          unfolding c1
          by (cases dberr; simp add: Let_def sil del: length_0_conv; simp)
      qed
    qed
  qed
  then show ?thesis
    by (cases dberr) (simp_all add: Let_def updateCommitStatus_nonempty)
qed

lemma run_silent:
  assumes F: "FetchPullStatus p [] (Pull ctx) = (fq, ferr)"
      and B: "BuildPlanCommands p (commentPrelude p ctx (fq, ferr))
                (ctx\<lparr>PullRequestStatus := fq\<rparr>) cmd = ([], None)"
      and s: "SilenceNoProjects p"
      and G: "GetPullStatus p
          (commentPrelude p ctx (fq, ferr)
           @ [EvBuildPlanCommands (ctx\<lparr>PullRequestStatus := fq\<rparr>) cmd ([], None)])
          (Pull ctx) = (gps, gerr)"
  shows "run p ctx cmd =
         (ctx\<lparr>PullRequestStatus := fq\<rparr>,
          commentPrelude p ctx (fq, ferr)
          @ EvBuildPlanCommands (ctx\<lparr>PullRequestStatus := fq\<rparr>) cmd ([], None)
          # (if silenceVCSStatusNoProjects p then []
             else if IsForSpecificProject cmd then
               EvGetPullStatus (Pull ctx) (gps, gerr)
               # (case gerr of
                    Some e \<Rightarrow> []
                  | None \<Rightarrow>
                      (case gps of
                         None \<Rightarrow> [EvUpdateCombinedCount (BaseRepo (Pull ctx)) (Pull ctx)
                                    SuccessCommitStatus Plan 0 0]
                       | Some ps \<Rightarrow>
                           updateCommitStatus (ctx\<lparr>PullRequestStatus := fq\<rparr>)
                             ps Plan []))
             else [EvUpdateCombinedCount (BaseRepo (Pull ctx)) (Pull ctx)
                     SuccessCommitStatus Plan 0 0,
                   EvUpdateCombinedCount (BaseRepo (Pull ctx)) (Pull ctx)
                     SuccessCommitStatus PolicyCheck 0 0,
                   EvUpdateCombinedCount (BaseRepo (Pull ctx)) (Pull ctx)
                     SuccessCommitStatus Apply 0 0]))"
proof (cases "DiscardApprovalOnPlan p")
  case True
  note B' = B [unfolded commentPrelude_def if_P [OF True], simplified]
  note G' = G [unfolded commentPrelude_def if_P [OF True], simplified]
  show ?thesis
    unfolding run_def
    using True s F B' G'
    by (cases gerr; cases gps)
       (simp_all add: Let_def commentPrelude_def updateCommitStatus_nonempty)
next
  case False
  note B' = B [unfolded commentPrelude_def if_not_P [OF False], simplified]
  note G' = G [unfolded commentPrelude_def if_not_P [OF False], simplified]
  show ?thesis
    unfolding run_def
    using False s F B' G'
    by (cases gerr; cases gps)
       (simp_all add: Let_def commentPrelude_def updateCommitStatus_nonempty)
qed

lemma run_cases [case_names BuildError Silent Main]:
  obtains
    (BuildError) fq ferr cmds e where
      "run p ctx cmd =
         (ctx\<lparr>PullRequestStatus := fq\<rparr>,
          commentPrelude p ctx (fq, ferr)
          @ [EvBuildPlanCommands (ctx\<lparr>PullRequestStatus := fq\<rparr>) cmd (cmds, Some e),
             EvUpdateCombined (BaseRepo (Pull ctx)) (Pull ctx) FailedCommitStatus Plan,
             EvUpdatePull (ctx\<lparr>PullRequestStatus := fq\<rparr>) (CommentCmd cmd)
               (Result_zero\<lparr>Error := Some e\<rparr>)])"
  | (Silent) fq ferr gps gerr where
      "SilenceNoProjects p"
      "run p ctx cmd =
         (ctx\<lparr>PullRequestStatus := fq\<rparr>,
          commentPrelude p ctx (fq, ferr)
          @ EvBuildPlanCommands (ctx\<lparr>PullRequestStatus := fq\<rparr>) cmd ([], None)
          # (if silenceVCSStatusNoProjects p then []
             else if IsForSpecificProject cmd then
               EvGetPullStatus (Pull ctx) (gps, gerr)
               # (case gerr of
                    Some e \<Rightarrow> []
                  | None \<Rightarrow>
                      (case gps of
                         None \<Rightarrow> [EvUpdateCombinedCount (BaseRepo (Pull ctx)) (Pull ctx)
                                    SuccessCommitStatus Plan 0 0]
                       | Some ps \<Rightarrow>
                           updateCommitStatus (ctx\<lparr>PullRequestStatus := fq\<rparr>) ps Plan []))
             else [EvUpdateCombinedCount (BaseRepo (Pull ctx)) (Pull ctx)
                     SuccessCommitStatus Plan 0 0,
                   EvUpdateCombinedCount (BaseRepo (Pull ctx)) (Pull ctx)
                     SuccessCommitStatus PolicyCheck 0 0,
                   EvUpdateCombinedCount (BaseRepo (Pull ctx)) (Pull ctx)
                     SuccessCommitStatus Apply 0 0]))"
  | (Main) fq ferr cmds gd les mid dels res0 res ps dberr where
      "\<not> (cmds = [] \<and> SilenceNoProjects p)"
      "\<forall>e\<in>set les. kindOf e = KTryLock"
      "attempted les = (if projectLocker p = None then [] else cmdsOf Plan cmds)"
      "lockFailures les \<noteq> [] \<longrightarrow>
         mid = EvUnlockByPull (FullName (BaseRepo (Pull ctx))) (Num (Pull ctx))
         \<and> res0 = Result_zero\<lparr>ProjectResults := lockFailures les\<rparr>"
      "lockFailures les = [] \<longrightarrow> kindOf mid = KExecution \<and> poolResults [mid] = [res0]"
      "automergeEnabled p (cmdsOf Plan cmds) \<and> HasErrors p res0 \<longrightarrow>
         res = res0\<lparr>PlansDeleted := True\<rparr>
         \<and> (\<exists>gd. dels = [EvGetPullDir (BaseRepo (Pull ctx)) (Pull ctx) gd,
                          EvDeletePlans (fst gd)])"
      "\<not> (automergeEnabled p (cmdsOf Plan cmds) \<and> HasErrors p res0) \<longrightarrow>
         res = res0 \<and> dels = []"
      "run p ctx cmd =
         (ctx\<lparr>PullRequestStatus := fq\<rparr>,
          commentPrelude p ctx (fq, ferr)
          @ [EvBuildPlanCommands (ctx\<lparr>PullRequestStatus := fq\<rparr>) cmd (cmds, None)]
          @ (if IsForSpecificProject cmd then []
             else [EvGetPullDir (BaseRepo (Pull ctx)) (Pull ctx) gd,
                   EvDeletePlans (fst gd),
                   EvUnlockByPull (FullName (BaseRepo (Pull ctx))) (Num (Pull ctx))])
          @ les @ mid # dels
          @ [EvUpdatePull (ctx\<lparr>PullRequestStatus := fq\<rparr>) (CommentCmd cmd) res,
             EvUpdateDB (ctx\<lparr>PullRequestStatus := fq\<rparr>) (Pull ctx)
               (ProjectResults res) (ps, dberr)]
          @ (case dberr of
               Some e \<Rightarrow> []
             | None \<Rightarrow>
                 updateCommitStatus (ctx\<lparr>PullRequestStatus := fq\<rparr>) ps Plan []
                 @ updateCommitStatus (ctx\<lparr>PullRequestStatus := fq\<rparr>) ps Apply []
                 @ (if ProjectResults res \<noteq> [] \<and> \<not> (HasErrors p res \<or> PlansDeleted res)
                    then [EvPolicyCheckRun (ctx\<lparr>PullRequestStatus := fq\<rparr>)
                            (cmdsOf PolicyCheck cmds)]
                    else if cmdsOf Plan cmds = [] \<and> \<not> IsForSpecificProject cmd
                    then [EvUpdateCombinedCount (BaseRepo (Pull ctx)) (Pull ctx)
                            SuccessCommitStatus PolicyCheck 0 0]
                    else [])))"
proof -
  obtain fq ferr where F: "FetchPullStatus p [] (Pull ctx) = (fq, ferr)"
    by (rule prod.exhaust)
  define ctx1 where "ctx1 = ctx\<lparr>PullRequestStatus := fq\<rparr>"
  define t3 where "t3 = [EvFetchPullStatus (Pull ctx) (fq, ferr)]
                 @ (if DiscardApprovalOnPlan p
                    then [EvDiscardReviews (BaseRepo (Pull ctx)) (Pull ctx)] else [])
                 @ [EvUpdateCombined (BaseRepo (Pull ctx)) (Pull ctx) PendingCommitStatus Plan]"
  have pre: "commentPrelude p ctx (fq, ferr) = t3"
    by (simp add: commentPrelude_def t3_def)
  have pull1: "Pull ctx1 = Pull ctx" by (simp add: ctx1_def)
  obtain cmds err where B: "BuildPlanCommands p t3 ctx1 cmd = (cmds, err)"
    by (rule prod.exhaust)
  have B': "BuildPlanCommands p
       ([EvFetchPullStatus (Pull ctx) (fq, ferr)]
        @ (if DiscardApprovalOnPlan p
           then [EvDiscardReviews (BaseRepo (Pull ctx)) (Pull ctx)] else [])
        @ [EvUpdateCombined (BaseRepo (Pull ctx)) (Pull ctx) PendingCommitStatus Plan])
       (ctx\<lparr>PullRequestStatus := fq\<rparr>) cmd = (cmds, err)"
    using B by (simp add: t3_def ctx1_def)
  have P: "partitionProjectCmds cmds = (cmdsOf Plan cmds, cmdsOf PolicyCheck cmds)"
    by (rule partitionProjectCmds_eq)
  show thesis
  proof (cases err)
    case (Some e)
    have "run p ctx cmd =
         (ctx\<lparr>PullRequestStatus := fq\<rparr>,
          commentPrelude p ctx (fq, ferr)
          @ [EvBuildPlanCommands (ctx\<lparr>PullRequestStatus := fq\<rparr>) cmd
               (cmds, Some e),
             EvUpdateCombined (BaseRepo (Pull ctx)) (Pull ctx) FailedCommitStatus Plan,
             EvUpdatePull (ctx\<lparr>PullRequestStatus := fq\<rparr>) (CommentCmd cmd)
               (Result_zero\<lparr>Error := Some e\<rparr>)])"
      unfolding run_def commentPrelude_def
      using Some F B'
      by (cases "DiscardApprovalOnPlan p") (simp_all add: Let_def)
    then show thesis by (rule BuildError)
  next
    case None
    show thesis
    proof (cases "cmds = [] \<and> SilenceNoProjects p")
      case True
      then have c: "cmds = []" and s: "SilenceNoProjects p" by simp_all
      obtain gps gerr where G: "GetPullStatus p
          (commentPrelude p ctx (fq, ferr)
           @ [EvBuildPlanCommands (ctx\<lparr>PullRequestStatus := fq\<rparr>) cmd ([], None)])
          (Pull ctx) = (gps, gerr)"
        by (rule prod.exhaust)
      from B None c have B1: "BuildPlanCommands p (commentPrelude p ctx (fq, ferr))
                (ctx\<lparr>PullRequestStatus := fq\<rparr>) cmd = ([], None)"
        by (simp add: pre ctx1_def)
      have "run p ctx cmd =
         (ctx\<lparr>PullRequestStatus := fq\<rparr>,
          commentPrelude p ctx (fq, ferr)
          @ EvBuildPlanCommands (ctx\<lparr>PullRequestStatus := fq\<rparr>) cmd ([], None)
          # (if silenceVCSStatusNoProjects p then []
             else if IsForSpecificProject cmd then
               EvGetPullStatus (Pull ctx) (gps, gerr)
               # (case gerr of
                    Some e \<Rightarrow> []
                  | None \<Rightarrow>
                      (case gps of
                         None \<Rightarrow> [EvUpdateCombinedCount (BaseRepo (Pull ctx)) (Pull ctx)
                                    SuccessCommitStatus Plan 0 0]
                       | Some ps \<Rightarrow>
                           updateCommitStatus (ctx\<lparr>PullRequestStatus := fq\<rparr>)
                             ps Plan []))
             else [EvUpdateCombinedCount (BaseRepo (Pull ctx)) (Pull ctx)
                     SuccessCommitStatus Plan 0 0,
                   EvUpdateCombinedCount (BaseRepo (Pull ctx)) (Pull ctx)
                     SuccessCommitStatus PolicyCheck 0 0,
                   EvUpdateCombinedCount (BaseRepo (Pull ctx)) (Pull ctx)
                     SuccessCommitStatus Apply 0 0]))"
        using run_silent [OF F B1 s G] by simp
      with s show thesis by (rule Silent)
    next
      case False
      let ?pcs = "cmdsOf Plan cmds"
      let ?b = "EvBuildPlanCommands ctx1 cmd (cmds, None)"
      let ?gd = "GetPullDir p (t3 @ [?b]) (BaseRepo (Pull ctx)) (Pull ctx)"
      define t4 where "t4 = (if \<not> IsForSpecificProject cmd then
                       deletePlans p ctx1 (t3 @ [?b])
                       @ [EvUnlockByPull (FullName (BaseRepo (Pull ctx))) (Num (Pull ctx))]
                     else t3 @ [?b])"
      obtain prs t5 where L: "(case projectLocker p of
                 None \<Rightarrow> ([], t4)
               | Some locker \<Rightarrow> lockLoop locker ?pcs ([], t4)) = (prs, t5)"
        by (rule prod.exhaust)
      obtain res0 t6 where E: "(if length prs > 0 then
                 (Result_zero\<lparr>ProjectResults := prs\<rparr>,
                  t5 @ [EvUnlockByPull (FullName (BaseRepo (Pull ctx))) (Num (Pull ctx))])
               else if isParallelEnabled ?pcs then
                 (let r = runProjectCmdsParallelGroups p t5 ctx1 ?pcs (parallelPoolSize p)
                  in (r, t5 @ [EvRunProjectCmdsParallelGroups ctx1 ?pcs (parallelPoolSize p) r]))
               else
                 (let r = runProjectCmds p t5 ?pcs
                  in (r, t5 @ [EvRunProjectCmds ?pcs r]))) = (res0, t6)"
        by (rule prod.exhaust)
      obtain res t7 where M: "(if automergeEnabled p ?pcs \<and> HasErrors p res0 then
                 (res0\<lparr>PlansDeleted := True\<rparr>, deletePlans p ctx1 t6)
               else (res0, t6)) = (res, t7)"
        by (rule prod.exhaust)
      obtain ps dberr where D:
        "updateDB p (t7 @ [EvUpdatePull ctx1 (CommentCmd cmd) res]) ctx1 (Pull ctx)
                (ProjectResults res) = (ps, dberr)"
        by (rule prod.exhaust)
      from B None have B0: "BuildPlanCommands p t3 ctx1 cmd = (cmds, None)" by simp
      note U = run_unfold [OF F ctx1_def t3_def B0 False P t4_def L E M D]
      from batch_shape [OF L E M] obtain les mid dels where S:
        "t7 = t4 @ les @ mid # dels"
        "\<forall>e\<in>set les. kindOf e = KTryLock"
        "attempted les = (if projectLocker p = None then [] else ?pcs)"
        "lockFailures les \<noteq> [] \<longrightarrow>
           mid = EvUnlockByPull (FullName (BaseRepo (Pull ctx))) (Num (Pull ctx))
           \<and> res0 = Result_zero\<lparr>ProjectResults := lockFailures les\<rparr>"
        "lockFailures les = [] \<longrightarrow> kindOf mid = KExecution \<and> poolResults [mid] = [res0]"
        "automergeEnabled p ?pcs \<and> HasErrors p res0 \<longrightarrow>
           res = res0\<lparr>PlansDeleted := True\<rparr>
           \<and> (\<exists>gd. dels = [EvGetPullDir (BaseRepo (Pull ctx1)) (Pull ctx1) gd,
                            EvDeletePlans (fst gd)])"
        "\<not> (automergeEnabled p ?pcs \<and> HasErrors p res0) \<longrightarrow> res = res0 \<and> dels = []"
        by blast
      show thesis
      proof (rule Main [where cmds = cmds and les = les and mid = mid and ?res0.0 = res0
            and res = res and dels = dels and gd = ?gd and ps = ps and dberr = dberr
            and fq = fq and ferr = ferr])
        show "run p ctx cmd =
         (ctx\<lparr>PullRequestStatus := fq\<rparr>,
          commentPrelude p ctx (fq, ferr)
          @ [EvBuildPlanCommands (ctx\<lparr>PullRequestStatus := fq\<rparr>) cmd (cmds, None)]
          @ (if IsForSpecificProject cmd then []
             else [EvGetPullDir (BaseRepo (Pull ctx)) (Pull ctx) ?gd,
                   EvDeletePlans (fst ?gd),
                   EvUnlockByPull (FullName (BaseRepo (Pull ctx))) (Num (Pull ctx))])
          @ les @ mid # dels
          @ [EvUpdatePull (ctx\<lparr>PullRequestStatus := fq\<rparr>) (CommentCmd cmd) res,
             EvUpdateDB (ctx\<lparr>PullRequestStatus := fq\<rparr>) (Pull ctx)
               (ProjectResults res) (ps, dberr)]
          @ (case dberr of
               Some e \<Rightarrow> []
             | None \<Rightarrow>
                 updateCommitStatus (ctx\<lparr>PullRequestStatus := fq\<rparr>) ps Plan []
                 @ updateCommitStatus (ctx\<lparr>PullRequestStatus := fq\<rparr>) ps Apply []
                 @ (if ProjectResults res \<noteq> [] \<and> \<not> (HasErrors p res \<or> PlansDeleted res)
                    then [EvPolicyCheckRun (ctx\<lparr>PullRequestStatus := fq\<rparr>)
                            (cmdsOf PolicyCheck cmds)]
                    else if cmdsOf Plan cmds = [] \<and> \<not> IsForSpecificProject cmd
                    then [EvUpdateCombinedCount (BaseRepo (Pull ctx)) (Pull ctx)
                            SuccessCommitStatus PolicyCheck 0 0]
                    else [])))"
          unfolding U S(1) t4_def pre [symmetric] ctx1_def
          by (cases dberr) (simp_all add: deletePlans_eq)
      qed (use False S pull1 in auto)
    qed
  qed
qed

subsection \<open>Reading the parts of a pass\<close>

lemma attempted_skip [simp]: "kindOf e \<noteq> KTryLock \<Longrightarrow> attempted (e # es) = attempted es"
  by (cases e) simp_all

lemma lockFailures_skip [simp]:
  "kindOf e \<noteq> KTryLock \<Longrightarrow> lockFailures (e # es) = lockFailures es"
  by (cases e) simp_all

lemma builtCmds_skip [simp]: "kindOf e \<noteq> KBuild \<Longrightarrow> builtCmds (e # es) = builtCmds es"
  by (cases e) simp_all

lemma postedResults_skip [simp]:
  "kindOf e \<noteq> KUpdatePull \<Longrightarrow> postedResults (e # es) = postedResults es"
  by (cases e) simp_all

lemma poolResults_skip [simp]:
  "kindOf e \<noteq> KExecution \<Longrightarrow> poolResults (e # es) = poolResults es"
  by (cases e) simp_all

lemma dbResponses_skip [simp]:
  "kindOf e \<noteq> KUpdateDB \<Longrightarrow> dbResponses (e # es) = dbResponses es"
  by (cases e) simp_all

lemma pullStatusResponses_skip [simp]:
  "kindOf e \<noteq> KGetPullStatus \<Longrightarrow> pullStatusResponses (e # es) = pullStatusResponses es"
  by (cases e) simp_all

lemma status_observed [simp]:
  "attempted (updateCommitStatus ctx ps nm []) = []"
  "lockFailures (updateCommitStatus ctx ps nm []) = []"
  "builtCmds (updateCommitStatus ctx ps nm []) = []"
  "postedResults (updateCommitStatus ctx ps nm []) = []"
  "poolResults (updateCommitStatus ctx ps nm []) = []"
  "dbResponses (updateCommitStatus ctx ps nm []) = []"
  "pullStatusResponses (updateCommitStatus ctx ps nm []) = []"
  "eventsOf k (updateCommitStatus ctx ps nm []) =
     (if k = KStatus then updateCommitStatus ctx ps nm [] else [])"
  by (auto simp: updateCommitStatus_kind eventsOf_same
        intro!: attempted_other lockFailures_other builtCmds_other postedResults_other
          poolResults_other dbResponses_other pullStatusResponses_other)

lemma locks_observed:
  assumes "\<forall>e\<in>set les. kindOf e = KTryLock"
  shows "builtCmds les = []" "postedResults les = []" "poolResults les = []"
    "dbResponses les = []" "pullStatusResponses les = []"
    "eventsOf k les = (if k = KTryLock then les else [])"
  using assms
  by (auto simp: eventsOf_same
        intro!: builtCmds_other postedResults_other poolResults_other dbResponses_other
          pullStatusResponses_other)

lemma prelude_observed [simp]:
  "attempted (commentPrelude p ctx fr) = []"
  "lockFailures (commentPrelude p ctx fr) = []"
  "builtCmds (commentPrelude p ctx fr) = []"
  "postedResults (commentPrelude p ctx fr) = []"
  "poolResults (commentPrelude p ctx fr) = []"
  "dbResponses (commentPrelude p ctx fr) = []"
  "pullStatusResponses (commentPrelude p ctx fr) = []"
  "eventsOf KStatus (commentPrelude p ctx fr) =
     [EvUpdateCombined (BaseRepo (Pull ctx)) (Pull ctx) PendingCommitStatus Plan]"
  "eventsOf KTryLock (commentPrelude p ctx fr) = []"
  "eventsOf KExecution (commentPrelude p ctx fr) = []"
  "eventsOf KUpdateDB (commentPrelude p ctx fr) = []"
  "eventsOf KPolicyCheckRun (commentPrelude p ctx fr) = []"
  "eventsOf KDeletePlans (commentPrelude p ctx fr) = []"
  "eventsOf KUnlockByPull (commentPrelude p ctx fr) = []"
  "eventsOf KUpdatePull (commentPrelude p ctx fr) = []"
  "eventsOf KBuild (commentPrelude p ctx fr) = []"
  by (simp_all add: commentPrelude_def)

text \<open>
  The part of a pass between the clearing of stale plans and \<open>updatePull\<close>: the lock
  attempts \<open>les\<close>, then \<open>mid\<close> (the unlock of an aborted pass, or the call of the
  execution pool), then \<open>dels\<close> (the deletion of the plans, when automerge asks for it).
\<close>

lemma segment_observed:
  assumes les: "\<forall>e\<in>set les. kindOf e = KTryLock"
      and abort: "lockFailures les \<noteq> [] \<longrightarrow>
         mid = EvUnlockByPull nm n \<and> res0 = Result_zero\<lparr>ProjectResults := lockFailures les\<rparr>"
      and exec: "lockFailures les = [] \<longrightarrow> kindOf mid = KExecution \<and> poolResults [mid] = [res0]"
      and del: "am \<and> HasErrors p res0 \<longrightarrow>
         res = res0\<lparr>PlansDeleted := True\<rparr>
         \<and> (\<exists>gd. dels = [EvGetPullDir repo pull gd, EvDeletePlans (fst gd)])"
      and nodel: "\<not> (am \<and> HasErrors p res0) \<longrightarrow> res = res0 \<and> dels = []"
  shows "length (eventsOf KDeletePlans dels) = (if am \<and> HasErrors p res0 then 1 else 0)"
    and "ProjectResults res = ProjectResults res0"
    and "PlansDeleted res = (PlansDeleted res0 \<or> am \<and> HasErrors p res0)"
    and "lockFailures les \<noteq> [] \<longrightarrow> ProjectResults res = lockFailures les"
    and "builtCmds les = []" "postedResults les = []" "poolResults les = []"
    and "dbResponses les = []" "pullStatusResponses les = []"
    and "\<And>k. eventsOf k les = (if k = KTryLock then les else [])"
    and "kindOf mid \<noteq> KTryLock" "kindOf mid \<noteq> KBuild" "kindOf mid \<noteq> KUpdatePull"
    and "kindOf mid \<noteq> KUpdateDB" "kindOf mid \<noteq> KGetPullStatus" "kindOf mid \<noteq> KStatus"
    and "kindOf mid \<noteq> KPolicyCheckRun" "kindOf mid \<noteq> KDeletePlans"
    and "(kindOf mid = KExecution) = (lockFailures les = [])"
    and "\<And>es. poolResults (mid # es) =
           (if lockFailures les = [] then res0 # poolResults es else poolResults es)"
    and "attempted dels = []" "lockFailures dels = []" "builtCmds dels = []"
    and "postedResults dels = []" "poolResults dels = []" "dbResponses dels = []"
    and "pullStatusResponses dels = []"
    and "eventsOf KTryLock dels = []" "eventsOf KExecution dels = []"
    and "eventsOf KStatus dels = []" "eventsOf KBuild dels = []"
    and "eventsOf KUpdatePull dels = []" "eventsOf KUpdateDB dels = []"
    and "eventsOf KPolicyCheckRun dels = []" "eventsOf KUnlockByPull dels = []"
proof -
  show "builtCmds les = []" "postedResults les = []" "poolResults les = []"
    "dbResponses les = []" "pullStatusResponses les = []"
    "\<And>k. eventsOf k les = (if k = KTryLock then les else [])"
    using locks_observed [OF les] by simp_all
  consider (A) "lockFailures les \<noteq> []" "mid = EvUnlockByPull nm n"
      "res0 = Result_zero\<lparr>ProjectResults := lockFailures les\<rparr>"
    | (E) "lockFailures les = []" "kindOf mid = KExecution" "poolResults [mid] = [res0]"
    using abort exec by blast
  note m = this
  consider (D) gd where "res = res0\<lparr>PlansDeleted := True\<rparr>" "am \<and> HasErrors p res0"
      "dels = [EvGetPullDir repo pull gd, EvDeletePlans (fst gd)]"
    | (N) "res = res0" "\<not> (am \<and> HasErrors p res0)" "dels = []"
    using del nodel by blast
  note d = this
  show "kindOf mid \<noteq> KTryLock" "kindOf mid \<noteq> KBuild" "kindOf mid \<noteq> KUpdatePull"
    "kindOf mid \<noteq> KUpdateDB" "kindOf mid \<noteq> KGetPullStatus" "kindOf mid \<noteq> KStatus"
    "kindOf mid \<noteq> KPolicyCheckRun" "kindOf mid \<noteq> KDeletePlans"
    "(kindOf mid = KExecution) = (lockFailures les = [])"
    by (cases rule: m; simp)+
  show "poolResults (mid # es) =
           (if lockFailures les = [] then res0 # poolResults es else poolResults es)" for es
  proof (cases rule: m)
    case A
    then show ?thesis by simp
  next
    case E
    have "poolResults (mid # es) = poolResults [mid] @ poolResults es"
      using poolResults_append [of "[mid]" es] by simp
    with E show ?thesis by simp
  qed
  show "attempted dels = []" "lockFailures dels = []" "builtCmds dels = []"
    "postedResults dels = []" "poolResults dels = []" "dbResponses dels = []"
    "pullStatusResponses dels = []"
    "eventsOf KTryLock dels = []" "eventsOf KExecution dels = []"
    "eventsOf KStatus dels = []" "eventsOf KBuild dels = []"
    "eventsOf KUpdatePull dels = []" "eventsOf KUpdateDB dels = []"
    "eventsOf KPolicyCheckRun dels = []" "eventsOf KUnlockByPull dels = []"
    "length (eventsOf KDeletePlans dels) = (if am \<and> HasErrors p res0 then 1 else 0)"
    by (cases rule: d; simp)+
  show "ProjectResults res = ProjectResults res0"
    by (cases rule: d) simp_all
  then show "lockFailures les \<noteq> [] \<longrightarrow> ProjectResults res = lockFailures les"
    using abort by (auto simp: Result_zero_def)
  show "PlansDeleted res = (PlansDeleted res0 \<or> am \<and> HasErrors p res0)"
    by (cases rule: d) auto
qed

subsection \<open>Reading the deletions of a pass\<close>

lemma deletedDirs_append [simp]: "deletedDirs (xs @ ys) = deletedDirs xs @ deletedDirs ys"
  by (induction xs rule: deletedDirs.induct) simp_all

lemma pullDirAnswers_append [simp]:
  "pullDirAnswers repo pull (xs @ ys) = pullDirAnswers repo pull xs @ pullDirAnswers repo pull ys"
  by (induction repo pull xs rule: pullDirAnswers.induct) simp_all

lemma deletedDirs_skip [simp]:
  "kindOf e \<noteq> KDeletePlans \<Longrightarrow> deletedDirs (e # es) = deletedDirs es"
  by (cases e) simp_all

lemma pullDirAnswers_skip [simp]:
  "kindOf e \<noteq> KGetPullDir \<Longrightarrow> pullDirAnswers repo pull (e # es) = pullDirAnswers repo pull es"
  by (cases e) simp_all

lemma deletedDirs_other: "\<forall>e\<in>set es. kindOf e \<noteq> KDeletePlans \<Longrightarrow> deletedDirs es = []"
  by (induction es rule: deletedDirs.induct) simp_all

lemma pullDirAnswers_other:
  "\<forall>e\<in>set es. kindOf e \<noteq> KGetPullDir \<Longrightarrow> pullDirAnswers repo pull es = []"
  by (induction repo pull es rule: pullDirAnswers.induct) simp_all

lemma status_deletions [simp]:
  "deletedDirs (updateCommitStatus ctx ps nm []) = []"
  "pullDirAnswers repo pull (updateCommitStatus ctx ps nm []) = []"
  by (auto simp: updateCommitStatus_kind intro!: deletedDirs_other pullDirAnswers_other)

lemma prelude_deletions [simp]:
  "deletedDirs (commentPrelude p ctx fr) = []"
  "pullDirAnswers repo pull (commentPrelude p ctx fr) = []"
  "eventsOf KGetPullDir (commentPrelude p ctx fr) = []"
  by (simp_all add: commentPrelude_def)

lemma segment_deletions:
  assumes les: "\<forall>e\<in>set les. kindOf e = KTryLock"
      and abort: "lockFailures les \<noteq> [] \<longrightarrow>
         mid = EvUnlockByPull nm n \<and> res0 = Result_zero\<lparr>ProjectResults := lockFailures les\<rparr>"
      and exec: "lockFailures les = [] \<longrightarrow> kindOf mid = KExecution \<and> poolResults [mid] = [res0]"
      and del: "am \<and> HasErrors p res0 \<longrightarrow>
         res = res0\<lparr>PlansDeleted := True\<rparr>
         \<and> (\<exists>gd. dels = [EvGetPullDir repo pull gd, EvDeletePlans (fst gd)])"
      and nodel: "\<not> (am \<and> HasErrors p res0) \<longrightarrow> res = res0 \<and> dels = []"
  shows "deletedDirs les = []"
    and "\<And>r q. pullDirAnswers r q les = []"
    and "kindOf mid \<noteq> KGetPullDir"
    and "deletedDirs dels = map fst (pullDirAnswers repo pull dels)"
proof -
  show "deletedDirs les = []"
    using les by (auto intro!: deletedDirs_other)
  show "pullDirAnswers r q les = []" for r q
    using les by (auto intro!: pullDirAnswers_other)
  show "kindOf mid \<noteq> KGetPullDir"
    using abort exec by (cases "lockFailures les = []") simp_all
  show "deletedDirs dels = map fst (pullDirAnswers repo pull dels)"
    using del nodel by (cases "am \<and> HasErrors p res0") auto
qed

lemma afterBuild_prelude:
  "kindOf b = KBuild \<Longrightarrow> afterBuild (commentPrelude p ctx fr @ b # rest) = rest"
  by (simp add: afterBuild_def commentPrelude_def)

lemma afterBuild_first: "kindOf b = KBuild \<Longrightarrow> afterBuild (b # rest) = rest"
  by (simp add: afterBuild_def)


section \<open>The claims\<close>

lemmas ex_defs = ex_runner_def ex_ctx_def ex_project_def ex_comment_def ex_planned_def
  ex_failed_def ex_hasErrors_def ex_status_def ex_pull_def ex_repo_def ex_locker_conflict_def
  ex_projectStatus_def ex_runner_conflict_def ex_conflict_response_def
  ex_runner_buildError_def ex_runner_silent_def ex_runner_automerge_def
  ex_cmds_planAndPolicy_def ex_cmds_planOnly_def ex_ctx_fetched_def ex_runner_dbError_def

lemmas pass_defs = Run_def runAutoplan_def run_def Let_def partitionProjectCmds_def
  deletePlans_def updateCommitStatus_def StatusCount_def Result_zero_def
  isParallelEnabled_def lockResult_def errors_Wrap_def lockFailed_def cmdsOf_def
  batchResult_def staleDeletions_def

subsection \<open>C1: a failed lock aborts the pass\<close>

text \<open>
  C1. For every pass in which at least one lock attempt produces a failure or an error,
  the execution pool is never invoked, the result of the pass (the one handed to
  \<open>updatePull\<close>) contains exactly the failed and erred lock results and no project result
  from execution, and the locks of the pull are released through \<open>UnlockByPull\<close> after the
  last lock attempt.
\<close>

theorem C1_lock_failure_aborts:
  assumes lock: "EvTryLock pc r \<in> set (snd (Run p ctx cmd))" and failed: "lockFailed r"
  shows "eventsOf KExecution (snd (Run p ctx cmd)) = []
         \<and> map ProjectResults (postedResults (snd (Run p ctx cmd)))
             = [lockFailures (snd (Run p ctx cmd))]
         \<and> (\<exists>es1 es2.
               snd (Run p ctx cmd)
                 = es1 @ EvUnlockByPull (FullName (BaseRepo (Pull ctx))) (Num (Pull ctx)) # es2
               \<and> eventsOf KTryLock es2 = [])"
proof -
  from lock failed have lf: "lockFailures (snd (Run p ctx cmd)) \<noteq> []"
    by (rule lockFailures_mem)
  show ?thesis
  proof (cases "Trigger ctx = AutoTrigger")
    case True
    then have R: "Run p ctx cmd = runAutoplan p ctx" by (simp add: Run_def)
    show ?thesis
    proof (cases rule: runAutoplan_cases [of p ctx])
      case (BuildError cmds e)
      with lf R show ?thesis by simp
    next
      case (Zero cmds)
      with lf R show ?thesis by (simp split: if_splits)
    next
      case (Main cmds gd les mid dels res0 res ps dberr)
      note seg = segment_observed [where am = "automergeEnabled p (cmdsOf Plan cmds)" and p = p,
        OF Main(2) Main(4) Main(5) Main(6) Main(7)]
      from lf R Main(8) have lf': "lockFailures les \<noteq> []"
        by (simp add: seg(5-) split: if_splits)
      with Main(4) have mid: "mid = EvUnlockByPull (FullName (BaseRepo (Pull ctx))) (Num (Pull ctx))"
        by simp
      have T: "snd (Run p ctx cmd) =
          ([EvBuildAutoplanCommands ctx (cmds, None),
           EvUpdateCombined (BaseRepo (Pull ctx)) (Pull ctx) PendingCommitStatus Plan,
           EvGetPullDir (BaseRepo (Pull ctx)) (Pull ctx) gd,
           EvDeletePlans (fst gd),
           EvUnlockByPull (FullName (BaseRepo (Pull ctx))) (Num (Pull ctx))] @ les)
          @ EvUnlockByPull (FullName (BaseRepo (Pull ctx))) (Num (Pull ctx))
          # (dels
          @ [EvUpdatePull ctx AutoplanCommand res,
             EvUpdateDB ctx (Pull ctx) (ProjectResults res) (ps, dberr)]
          @ updateCommitStatus ctx ps Plan [] @ updateCommitStatus ctx ps Apply []
          @ (if cmdsOf PolicyCheck cmds \<noteq> [] \<and> \<not> (HasErrors p res \<or> PlansDeleted res)
             then [EvPolicyCheckRun (ctx\<lparr>PullStatus := Some ps\<rparr>) (cmdsOf PolicyCheck cmds)]
             else []))"
        using R Main(8) mid by simp
      have a: "eventsOf KExecution (snd (Run p ctx cmd)) = []"
        using R Main(8) lf' by (simp add: seg(5-))
      have b: "map ProjectResults (postedResults (snd (Run p ctx cmd)))
             = [lockFailures (snd (Run p ctx cmd))]"
        using R Main(8) lf' seg(4) by (simp add: seg(5-))
      have c: "eventsOf KTryLock (dels
          @ [EvUpdatePull ctx AutoplanCommand res,
             EvUpdateDB ctx (Pull ctx) (ProjectResults res) (ps, dberr)]
          @ updateCommitStatus ctx ps Plan [] @ updateCommitStatus ctx ps Apply []
          @ (if cmdsOf PolicyCheck cmds \<noteq> [] \<and> \<not> (HasErrors p res \<or> PlansDeleted res)
             then [EvPolicyCheckRun (ctx\<lparr>PullStatus := Some ps\<rparr>) (cmdsOf PolicyCheck cmds)]
             else [])) = []"
        by (simp add: seg(5-))
      from a b T c show ?thesis by blast
    qed
  next
    case False
    then have R: "Run p ctx cmd = run p ctx cmd" by (simp add: Run_def)
    show ?thesis
    proof (cases rule: run_cases [of p ctx cmd])
      case (BuildError fq ferr cmds e)
      with lf R show ?thesis by simp
    next
      case (Silent fq ferr gps gerr)
      with lf R show ?thesis by (cases gerr; cases gps) (simp_all split: if_splits)
    next
      case (Main fq ferr cmds gd les mid dels res0 res ps dberr)
      note seg = segment_observed [where am = "automergeEnabled p (cmdsOf Plan cmds)" and p = p,
        OF Main(2) Main(4) Main(5) Main(6) Main(7)]
      let ?c = "ctx\<lparr>PullRequestStatus := fq\<rparr>"
      let ?tail = "case dberr of
               Some e \<Rightarrow> []
             | None \<Rightarrow>
                 updateCommitStatus ?c ps Plan [] @ updateCommitStatus ?c ps Apply []
                 @ (if ProjectResults res \<noteq> [] \<and> \<not> (HasErrors p res \<or> PlansDeleted res)
                    then [EvPolicyCheckRun ?c (cmdsOf PolicyCheck cmds)]
                    else if cmdsOf Plan cmds = [] \<and> \<not> IsForSpecificProject cmd
                    then [EvUpdateCombinedCount (BaseRepo (Pull ctx)) (Pull ctx)
                            SuccessCommitStatus PolicyCheck 0 0]
                    else [])"
      have tl: "lockFailures ?tail = []" "eventsOf KExecution ?tail = []"
        "postedResults ?tail = []" "eventsOf KTryLock ?tail = []"
        by (cases dberr; simp)+
      from lf R Main(8) have lf': "lockFailures les \<noteq> []"
        by (simp add: seg(5-) tl split: if_splits)
      with Main(4) have mid: "mid = EvUnlockByPull (FullName (BaseRepo (Pull ctx))) (Num (Pull ctx))"
        by simp
      have T: "snd (Run p ctx cmd) =
          (commentPrelude p ctx (fq, ferr)
          @ [EvBuildPlanCommands ?c cmd (cmds, None)]
          @ (if IsForSpecificProject cmd then []
             else [EvGetPullDir (BaseRepo (Pull ctx)) (Pull ctx) gd,
                   EvDeletePlans (fst gd),
                   EvUnlockByPull (FullName (BaseRepo (Pull ctx))) (Num (Pull ctx))])
          @ les)
          @ EvUnlockByPull (FullName (BaseRepo (Pull ctx))) (Num (Pull ctx))
          # (dels
          @ [EvUpdatePull ?c (CommentCmd cmd) res,
             EvUpdateDB ?c (Pull ctx) (ProjectResults res) (ps, dberr)]
          @ ?tail)"
        using R Main(8) mid by simp
      have a: "eventsOf KExecution (snd (Run p ctx cmd)) = []"
        using R Main(8) lf' by (simp add: seg(5-) tl)
      have b: "map ProjectResults (postedResults (snd (Run p ctx cmd)))
             = [lockFailures (snd (Run p ctx cmd))]"
        using R Main(8) lf' seg(4) by (simp add: seg(5-) tl)
      have c: "eventsOf KTryLock (dels
          @ [EvUpdatePull ?c (CommentCmd cmd) res,
             EvUpdateDB ?c (Pull ctx) (ProjectResults res) (ps, dberr)]
          @ ?tail) = []"
        by (simp add: seg(5-) tl)
      from a b T c show ?thesis by blast
    qed
  qed
qed

text \<open>C1, witness: two projects, the lock of \<open>vpc\<close> is held by another pull.\<close>

theorem C1_lock_failure_aborts_witness:
  "EvTryLock (ex_project Plan ''vpc'') ex_conflict_response \<in> set (snd (Run ex_runner_conflict (ex_ctx CommentTrigger) (ex_comment False)))
   \<and> lockFailed ex_conflict_response
   \<and> eventsOf KExecution (snd (Run ex_runner_conflict (ex_ctx CommentTrigger) (ex_comment False))) = []
   \<and> map ProjectResults (postedResults (snd (Run ex_runner_conflict (ex_ctx CommentTrigger) (ex_comment False)))) = [lockFailures (snd (Run ex_runner_conflict (ex_ctx CommentTrigger) (ex_comment False)))]
   \<and> lockFailures (snd (Run ex_runner_conflict (ex_ctx CommentTrigger) (ex_comment False))) = [lockResult (ex_project Plan ''vpc'') ex_conflict_response]"
proof -
  have h1: "EvTryLock (ex_project Plan ''vpc'') ex_conflict_response \<in> set (snd (Run ex_runner_conflict (ex_ctx CommentTrigger) (ex_comment False)))"
    by (simp add: pass_defs ex_defs)
  have h2: "lockFailed ex_conflict_response"
    by (simp add: pass_defs ex_defs)
  have h3: "lockFailures (snd (Run ex_runner_conflict (ex_ctx CommentTrigger) (ex_comment False))) = [lockResult (ex_project Plan ''vpc'') ex_conflict_response]"
    by (simp add: pass_defs ex_defs)
  from C1_lock_failure_aborts [OF h1 h2] h1 h2 h3 show ?thesis by blast
qed

subsection \<open>C2: the dispatch of the policy-check stage\<close>

text \<open>
  C2 as stated: in every pass the policy-check stage is dispatched if and only if the
  PolicyCheck commands are non-empty, the result has no errors and no plans were discarded.
  It fails in a comment pass: with one Plan command, no PolicyCheck command and a plan that
  succeeds, \<open>run\<close> calls the policy-check runner, with an empty list of commands.
\<close>

theorem C2_counterexample:
  "builtCmds (snd (Run (ex_runner ex_cmds_planOnly) (ex_ctx CommentTrigger) (ex_comment False))) = [(ex_cmds_planOnly, None)]
   \<and> snd (partitionProjectCmds ex_cmds_planOnly) = []
   \<and> eventsOf KPolicyCheckRun (snd (Run (ex_runner ex_cmds_planOnly) (ex_ctx CommentTrigger) (ex_comment False))) = [EvPolicyCheckRun ex_ctx_fetched []]"
  by (simp add: pass_defs ex_defs)

text \<open>
  C2, amended. In a pass whose command builder succeeds and that posts a result: an
  automatic pass dispatches the policy-check stage if and only if the PolicyCheck commands
  are non-empty, the result has no errors and no plans were discarded; a comment pass
  dispatches it if and only if the write to the database succeeded, the result holds at
  least one project result, has no errors and no plans were discarded (the PolicyCheck
  commands may then be empty). The stage is dispatched at most once, with the PolicyCheck
  commands of the partition and the context the pass ends with.
\<close>

theorem C2_policy_check_dispatch:
  assumes built: "builtCmds (snd (Run p ctx cmd)) = [(cmds, None)]"
      and posted: "postedResults (snd (Run p ctx cmd)) = [res]"
  shows "eventsOf KPolicyCheckRun (snd (Run p ctx cmd)) =
           (if (if Trigger ctx = AutoTrigger
                then snd (partitionProjectCmds cmds) \<noteq> []
                else map snd (dbResponses (snd (Run p ctx cmd))) = [None]
                     \<and> ProjectResults res \<noteq> [])
               \<and> \<not> HasErrors p res \<and> \<not> PlansDeleted res
            then [EvPolicyCheckRun (fst (Run p ctx cmd)) (snd (partitionProjectCmds cmds))]
            else [])"
proof (cases "Trigger ctx = AutoTrigger")
  case True
  then have R: "Run p ctx cmd = runAutoplan p ctx" by (simp add: Run_def)
  show ?thesis
  proof (cases rule: runAutoplan_cases [of p ctx])
    case (BuildError cmds' e)
    with built R show ?thesis by simp
  next
    case (Zero cmds')
    with posted R show ?thesis by (simp split: if_splits)
  next
    case (Main cmds' gd les mid dels res0 res' ps dberr)
    note seg = segment_observed [where am = "automergeEnabled p (cmdsOf Plan cmds')" and p = p,
      OF Main(2) Main(4) Main(5) Main(6) Main(7)]
    from built R Main(8) have c: "cmds' = cmds" by (simp add: seg(5-) split: if_splits)
    from posted R Main(8) have r: "res' = res" by (simp add: seg(5-) split: if_splits)
    show ?thesis
      using R Main(8) True unfolding c r
      by (simp add: seg(5-) partitionProjectCmds_eq)
  qed
next
  case False
  then have R: "Run p ctx cmd = run p ctx cmd" by (simp add: Run_def)
  show ?thesis
  proof (cases rule: run_cases [of p ctx cmd])
    case (BuildError fq ferr cmds' e)
    with built R show ?thesis by simp
  next
    case (Silent fq ferr gps gerr)
    with posted R show ?thesis by (cases gerr; cases gps) (simp_all split: if_splits)
  next
    case (Main fq ferr cmds' gd les mid dels res0 res' ps dberr)
    note seg = segment_observed [where am = "automergeEnabled p (cmdsOf Plan cmds')" and p = p,
      OF Main(2) Main(4) Main(5) Main(6) Main(7)]
    from built R Main(8) have c: "cmds' = cmds"
      by (cases dberr) (simp_all add: seg(5-) split: if_splits)
    from posted R Main(8) have r: "res' = res"
      by (cases dberr) (simp_all add: seg(5-) split: if_splits)
    show ?thesis
      using R Main(8) False unfolding c r
      by (cases dberr) (simp_all add: seg(5-) partitionProjectCmds_eq)
  qed
qed

text \<open>C2, witness: an automatic pass with one Plan and one PolicyCheck command.\<close>

theorem C2_policy_check_dispatch_witness:
  "builtCmds (snd (Run (ex_runner ex_cmds_planAndPolicy) (ex_ctx AutoTrigger) (ex_comment False))) = [(ex_cmds_planAndPolicy, None)]
   \<and> postedResults (snd (Run (ex_runner ex_cmds_planAndPolicy) (ex_ctx AutoTrigger) (ex_comment False)))
       = [Result_zero\<lparr>ProjectResults := [ex_planned (ex_project Plan ''vpc'')]\<rparr>]
   \<and> eventsOf KPolicyCheckRun (snd (Run (ex_runner ex_cmds_planAndPolicy) (ex_ctx AutoTrigger) (ex_comment False)))
       = [EvPolicyCheckRun (fst (Run (ex_runner ex_cmds_planAndPolicy) (ex_ctx AutoTrigger)
                                  (ex_comment False)))
            [ex_project PolicyCheck ''vpc'']]"
proof -
  have h1: "builtCmds (snd (Run (ex_runner ex_cmds_planAndPolicy) (ex_ctx AutoTrigger) (ex_comment False))) = [(ex_cmds_planAndPolicy, None)]"
    by (simp add: pass_defs ex_defs)
  have h2: "postedResults (snd (Run (ex_runner ex_cmds_planAndPolicy) (ex_ctx AutoTrigger) (ex_comment False)))
       = [Result_zero\<lparr>ProjectResults := [ex_planned (ex_project Plan ''vpc'')]\<rparr>]"
    by (simp add: pass_defs ex_defs)
  have h3: "snd (partitionProjectCmds ex_cmds_planAndPolicy) = [ex_project PolicyCheck ''vpc'']"
    by (simp add: pass_defs ex_defs)
  have h4: "\<not> HasErrors (ex_runner ex_cmds_planAndPolicy)
               (Result_zero\<lparr>ProjectResults := [ex_planned (ex_project Plan ''vpc'')]\<rparr>)"
    by (simp add: pass_defs ex_defs)
  have h5: "Trigger (ex_ctx AutoTrigger) = AutoTrigger"
    by (simp add: ex_defs)
  from C2_policy_check_dispatch [OF h1 h2] h1 h2 h3 h4 h5 show ?thesis
    by (simp add: Result_zero_def)
qed

subsection \<open>C3: one lock attempt per Plan command\<close>

text \<open>
  C3 as stated: the number of lock attempts equals the number of Plan and PolicyCheck
  commands together. It fails: with one Plan and one PolicyCheck command the pass tries one
  lock, not two.
\<close>

theorem C3_counterexample:
  "builtCmds (snd (Run (ex_runner ex_cmds_planAndPolicy) (ex_ctx AutoTrigger) (ex_comment False))) = [(ex_cmds_planAndPolicy, None)]
   \<and> length (attempted (snd (Run (ex_runner ex_cmds_planAndPolicy) (ex_ctx AutoTrigger) (ex_comment False)))) = 1
   \<and> length (cmdsOf Plan ex_cmds_planAndPolicy)
       + length (cmdsOf PolicyCheck ex_cmds_planAndPolicy) = 2"
  by (simp add: pass_defs ex_defs)

text \<open>
  C3, amended. For every pass whose command builder succeeds and whose runner has a project
  locker, a lock acquisition is attempted for every Plan command, in input order and
  whatever the earlier attempts answered, and for no other command: the commands a lock is
  tried for are exactly the Plan commands, so the number of attempts is the number of Plan
  commands. Without a project locker no lock is attempted.
\<close>

theorem C3_lock_attempts:
  assumes built: "builtCmds (snd (Run p ctx cmd)) = [(cmds, None)]"
  shows "attempted (snd (Run p ctx cmd)) =
           (if projectLocker p = None then [] else fst (partitionProjectCmds cmds))
         \<and> fst (partitionProjectCmds cmds) = filter (\<lambda>c. CommandName c = Plan) cmds"
proof -
  have P: "fst (partitionProjectCmds cmds) = filter (\<lambda>c. CommandName c = Plan) cmds"
    by (simp add: partitionProjectCmds_eq cmdsOf_def)
  have "attempted (snd (Run p ctx cmd)) =
           (if projectLocker p = None then [] else cmdsOf Plan cmds)"
  proof (cases "Trigger ctx = AutoTrigger")
    case True
    then have R: "Run p ctx cmd = runAutoplan p ctx" by (simp add: Run_def)
    show ?thesis
    proof (cases rule: runAutoplan_cases [of p ctx])
      case (BuildError cmds' e)
      with built R show ?thesis by simp
    next
      case (Zero cmds')
      with built R have "cmds' = cmds" by (simp split: if_splits)
      with Zero R show ?thesis by (simp split: if_splits)
    next
      case (Main cmds' gd les mid dels res0 res ps dberr)
      note seg = segment_observed [where am = "automergeEnabled p (cmdsOf Plan cmds')" and p = p,
        OF Main(2) Main(4) Main(5) Main(6) Main(7)]
      from built R Main(8) have "cmds' = cmds" by (simp add: seg(5-) split: if_splits)
      with R Main(8) Main(3) show ?thesis by (simp add: seg(5-))
    qed
  next
    case False
    then have R: "Run p ctx cmd = run p ctx cmd" by (simp add: Run_def)
    show ?thesis
    proof (cases rule: run_cases [of p ctx cmd])
      case (BuildError fq ferr cmds' e)
      with built R show ?thesis by simp
    next
      case (Silent fq ferr gps gerr)
      from built R Silent(2) have "cmds = []"
        by (cases gerr; cases gps) (simp_all split: if_splits)
      with R Silent(2) show ?thesis
        by (cases gerr; cases gps) (simp_all add: cmdsOf_def split: if_splits)
    next
      case (Main fq ferr cmds' gd les mid dels res0 res ps dberr)
      note seg = segment_observed [where am = "automergeEnabled p (cmdsOf Plan cmds')" and p = p,
        OF Main(2) Main(4) Main(5) Main(6) Main(7)]
      from built R Main(8) have "cmds' = cmds"
        by (cases dberr) (simp_all add: seg(5-) split: if_splits)
      with R Main(8) Main(3) show ?thesis
        by (cases dberr) (simp_all add: seg(5-))
    qed
  qed
  with P show ?thesis by (simp add: partitionProjectCmds_eq)
qed

text \<open>
  C3, witness: two Plan commands, the first lock fails and the second is still attempted.
\<close>

theorem C3_lock_attempts_witness:
  "builtCmds (snd (Run ex_runner_conflict (ex_ctx CommentTrigger) (ex_comment False))) = [([ex_project Plan ''vpc'', ex_project Plan ''dns''], None)]
   \<and> projectLocker ex_runner_conflict \<noteq> None
   \<and> attempted (snd (Run ex_runner_conflict (ex_ctx CommentTrigger) (ex_comment False))) = [ex_project Plan ''vpc'', ex_project Plan ''dns'']"
proof -
  have h1: "builtCmds (snd (Run ex_runner_conflict (ex_ctx CommentTrigger) (ex_comment False))) = [([ex_project Plan ''vpc'', ex_project Plan ''dns''], None)]"
    by (simp add: pass_defs ex_defs)
  have h2: "projectLocker ex_runner_conflict \<noteq> None"
    by (simp add: ex_defs)
  have h3: "filter (\<lambda>c. CommandName c = Plan) [ex_project Plan ''vpc'', ex_project Plan ''dns'']
             = [ex_project Plan ''vpc'', ex_project Plan ''dns'']"
    by (simp add: ex_defs)
  from C3_lock_attempts [OF h1] h1 h2 h3 show ?thesis by simp
qed

subsection \<open>C4: automerge deletes the plans of a failed batch\<close>

text \<open>
  C4. In every pass that reaches aggregation (the command builder succeeded and a result is
  posted): if automerge is enabled for the Plan commands of the batch and the batch result
  has errors, then right before the result is posted the pass asks \<open>GetPullDir\<close> for the
  directory of this pull and calls \<open>DeletePlans\<close> on the directory it answered, which is
  one deletion more than the clearing of stale plans makes, and the posted result is the
  batch result with \<open>PlansDeleted\<close> set; otherwise (in particular when automerge is
  disabled) the posted result is the batch result unchanged and the plans are deleted only
  by the clearing of stale plans, never because of an error. In both cases every
  \<open>GetPullDir\<close> of the pass is for this pull, and the directories handed to \<open>DeletePlans\<close>
  are, call by call, the directories \<open>GetPullDir\<close> answered.
\<close>

theorem C4_automerge_cleanup:
  assumes built: "builtCmds (snd (Run p ctx cmd)) = [(cmds, None)]"
      and posted: "postedResults (snd (Run p ctx cmd)) = [res]"
  shows "(if automergeEnabled p (fst (partitionProjectCmds cmds))
              \<and> HasErrors p (batchResult (snd (Run p ctx cmd)))
          then res = (batchResult (snd (Run p ctx cmd)))\<lparr>PlansDeleted := True\<rparr>
               \<and> length (eventsOf KDeletePlans (snd (Run p ctx cmd)))
                   = staleDeletions ctx cmd + 1
               \<and> (\<exists>pre gd c k post.
                     snd (Run p ctx cmd)
                       = pre @ EvGetPullDir (BaseRepo (Pull ctx)) (Pull ctx) gd
                             # EvDeletePlans (fst gd) # EvUpdatePull c k res # post)
          else res = batchResult (snd (Run p ctx cmd))
               \<and> length (eventsOf KDeletePlans (snd (Run p ctx cmd)))
                   = staleDeletions ctx cmd)
         \<and> deletedDirs (snd (Run p ctx cmd))
             = map fst (pullDirAnswers (BaseRepo (Pull ctx)) (Pull ctx) (snd (Run p ctx cmd)))
         \<and> length (eventsOf KGetPullDir (snd (Run p ctx cmd)))
             = length (pullDirAnswers (BaseRepo (Pull ctx)) (Pull ctx) (snd (Run p ctx cmd)))"
proof (cases "Trigger ctx = AutoTrigger")
  case True
  then have R: "Run p ctx cmd = runAutoplan p ctx" by (simp add: Run_def)
  show ?thesis
  proof (cases rule: runAutoplan_cases [of p ctx])
    case (BuildError cmds' e)
    with built R show ?thesis by simp
  next
    case (Zero cmds')
    with posted R show ?thesis by (simp split: if_splits)
  next
    case (Main cmds' gd les mid dels res0 res' ps dberr)
    note seg = segment_observed [where am = "automergeEnabled p (cmdsOf Plan cmds')" and p = p,
      OF Main(2) Main(4) Main(5) Main(6) Main(7)]
    note sd = segment_deletions [where am = "automergeEnabled p (cmdsOf Plan cmds')" and p = p,
      OF Main(2) Main(4) Main(5) Main(6) Main(7)]
    from built R Main(8) have c: "cmds' = cmds" by (simp add: seg(5-) split: if_splits)
    from posted R Main(8) have r: "res' = res" by (simp add: seg(5-) split: if_splits)
    have b: "batchResult (snd (Run p ctx cmd)) = res0"
      using R Main(8) Main(4) by (simp add: batchResult_def seg(5-))
    have n: "length (eventsOf KDeletePlans (snd (Run p ctx cmd)))
               = 1 + (if automergeEnabled p (cmdsOf Plan cmds) \<and> HasErrors p res0 then 1 else 0)"
      using R Main(8) c seg(1) by (simp add: seg(5-))
    have d: "deletedDirs (snd (Run p ctx cmd))
             = map fst (pullDirAnswers (BaseRepo (Pull ctx)) (Pull ctx) (snd (Run p ctx cmd)))"
      using R Main(8) by (simp add: seg(5-) sd)
    have lk: "eventsOf KGetPullDir dels = []
              \<or> (\<exists>g. dels = [EvGetPullDir (BaseRepo (Pull ctx)) (Pull ctx) g, EvDeletePlans (fst g)])"
      using Main(6) Main(7) by (cases "automergeEnabled p (cmdsOf Plan cmds') \<and> HasErrors p res0") auto
    have g: "length (eventsOf KGetPullDir (snd (Run p ctx cmd)))
             = length (pullDirAnswers (BaseRepo (Pull ctx)) (Pull ctx) (snd (Run p ctx cmd)))"
      using R Main(8) Main(6) Main(7)
      by (cases "automergeEnabled p (cmdsOf Plan cmds') \<and> HasErrors p res0")
         (auto simp: seg(5-) sd)
    have s: "\<exists>pre gd c k post.
               snd (Run p ctx cmd)
                 = pre @ EvGetPullDir (BaseRepo (Pull ctx)) (Pull ctx) gd
                       # EvDeletePlans (fst gd) # EvUpdatePull c k res # post"
      if am: "automergeEnabled p (cmdsOf Plan cmds) \<and> HasErrors p res0"
    proof -
      from am Main(6) c obtain g where
        dl: "dels = [EvGetPullDir (BaseRepo (Pull ctx)) (Pull ctx) g, EvDeletePlans (fst g)]"
        by auto
      have "snd (Run p ctx cmd) =
          ([EvBuildAutoplanCommands ctx (cmds', None),
           EvUpdateCombined (BaseRepo (Pull ctx)) (Pull ctx) PendingCommitStatus Plan,
           EvGetPullDir (BaseRepo (Pull ctx)) (Pull ctx) gd,
           EvDeletePlans (fst gd),
           EvUnlockByPull (FullName (BaseRepo (Pull ctx))) (Num (Pull ctx))] @ les @ [mid])
          @ EvGetPullDir (BaseRepo (Pull ctx)) (Pull ctx) g
          # EvDeletePlans (fst g) # EvUpdatePull ctx AutoplanCommand res
          # ([EvUpdateDB ctx (Pull ctx) (ProjectResults res') (ps, dberr)]
          @ updateCommitStatus ctx ps Plan [] @ updateCommitStatus ctx ps Apply []
          @ (if cmdsOf PolicyCheck cmds' \<noteq> [] \<and> \<not> (HasErrors p res' \<or> PlansDeleted res')
             then [EvPolicyCheckRun (ctx\<lparr>PullStatus := Some ps\<rparr>) (cmdsOf PolicyCheck cmds')]
             else []))"
        using R Main(8) dl r by simp
      then show ?thesis by blast
    qed
    show ?thesis
      using b n d g s Main(6) Main(7) c r True
      by (simp add: partitionProjectCmds_eq staleDeletions_def)
  qed
next
  case False
  then have R: "Run p ctx cmd = run p ctx cmd" by (simp add: Run_def)
  show ?thesis
  proof (cases rule: run_cases [of p ctx cmd])
    case (BuildError fq ferr cmds' e)
    with built R show ?thesis by simp
  next
    case (Silent fq ferr gps gerr)
    with posted R show ?thesis by (cases gerr; cases gps) (simp_all split: if_splits)
  next
    case (Main fq ferr cmds' gd les mid dels res0 res' ps dberr)
    note seg = segment_observed [where am = "automergeEnabled p (cmdsOf Plan cmds')" and p = p,
      OF Main(2) Main(4) Main(5) Main(6) Main(7)]
    note sd = segment_deletions [where am = "automergeEnabled p (cmdsOf Plan cmds')" and p = p,
      OF Main(2) Main(4) Main(5) Main(6) Main(7)]
    let ?c = "ctx\<lparr>PullRequestStatus := fq\<rparr>"
    let ?tail = "case dberr of
               Some e \<Rightarrow> []
             | None \<Rightarrow>
                 updateCommitStatus ?c ps Plan [] @ updateCommitStatus ?c ps Apply []
                 @ (if ProjectResults res' \<noteq> [] \<and> \<not> (HasErrors p res' \<or> PlansDeleted res')
                    then [EvPolicyCheckRun ?c (cmdsOf PolicyCheck cmds')]
                    else if cmdsOf Plan cmds' = [] \<and> \<not> IsForSpecificProject cmd
                    then [EvUpdateCombinedCount (BaseRepo (Pull ctx)) (Pull ctx)
                            SuccessCommitStatus PolicyCheck 0 0]
                    else [])"
    have tl: "deletedDirs ?tail = []"
      "pullDirAnswers (BaseRepo (Pull ctx)) (Pull ctx) ?tail = []"
      "eventsOf KGetPullDir ?tail = []"
      by (cases dberr; simp)+
    from built R Main(8) have c: "cmds' = cmds"
      by (cases dberr) (simp_all add: seg(5-) split: if_splits)
    from posted R Main(8) have r: "res' = res"
      by (cases dberr) (simp_all add: seg(5-) split: if_splits)
    have b: "batchResult (snd (Run p ctx cmd)) = res0"
      using R Main(8) Main(4) by (cases dberr) (simp_all add: batchResult_def seg(5-))
    have n: "length (eventsOf KDeletePlans (snd (Run p ctx cmd)))
               = (if IsForSpecificProject cmd then 0 else 1)
                 + (if automergeEnabled p (cmdsOf Plan cmds) \<and> HasErrors p res0 then 1 else 0)"
      using R Main(8) c seg(1) by (cases dberr) (simp_all add: seg(5-))
    have d: "deletedDirs (snd (Run p ctx cmd))
             = map fst (pullDirAnswers (BaseRepo (Pull ctx)) (Pull ctx) (snd (Run p ctx cmd)))"
      using R Main(8) by (simp add: seg(5-) sd tl)
    have g: "length (eventsOf KGetPullDir (snd (Run p ctx cmd)))
             = length (pullDirAnswers (BaseRepo (Pull ctx)) (Pull ctx) (snd (Run p ctx cmd)))"
      using R Main(8) Main(6) Main(7)
      by (cases "automergeEnabled p (cmdsOf Plan cmds') \<and> HasErrors p res0")
         (auto simp: seg(5-) sd tl)
    have s: "\<exists>pre gd c k post.
               snd (Run p ctx cmd)
                 = pre @ EvGetPullDir (BaseRepo (Pull ctx)) (Pull ctx) gd
                       # EvDeletePlans (fst gd) # EvUpdatePull c k res # post"
      if am: "automergeEnabled p (cmdsOf Plan cmds) \<and> HasErrors p res0"
    proof -
      from am Main(6) c obtain g where
        dl: "dels = [EvGetPullDir (BaseRepo (Pull ctx)) (Pull ctx) g, EvDeletePlans (fst g)]"
        by auto
      have "snd (Run p ctx cmd) =
          (commentPrelude p ctx (fq, ferr)
          @ [EvBuildPlanCommands ?c cmd (cmds', None)]
          @ (if IsForSpecificProject cmd then []
             else [EvGetPullDir (BaseRepo (Pull ctx)) (Pull ctx) gd,
                   EvDeletePlans (fst gd),
                   EvUnlockByPull (FullName (BaseRepo (Pull ctx))) (Num (Pull ctx))])
          @ les @ [mid])
          @ EvGetPullDir (BaseRepo (Pull ctx)) (Pull ctx) g
          # EvDeletePlans (fst g) # EvUpdatePull ?c (CommentCmd cmd) res
          # ([EvUpdateDB ?c (Pull ctx) (ProjectResults res') (ps, dberr)] @ ?tail)"
        using R Main(8) dl r by simp
      then show ?thesis by blast
    qed
    show ?thesis
      using b n d g s Main(6) Main(7) c r False
      by (simp add: partitionProjectCmds_eq staleDeletions_def)
  qed
qed

text \<open>C4, witness: a lock conflict under automerge, in an automatic pass.\<close>

theorem C4_automerge_cleanup_witness:
  "builtCmds (snd (Run ex_runner_automerge (ex_ctx AutoTrigger) (ex_comment False))) = [([ex_project Plan ''vpc'', ex_project Plan ''dns''], None)]
   \<and> postedResults (snd (Run ex_runner_automerge (ex_ctx AutoTrigger) (ex_comment False)))
       = [Result_zero\<lparr>ProjectResults :=
                         [lockResult (ex_project Plan ''vpc'') ex_conflict_response],
                      PlansDeleted := True\<rparr>]
   \<and> length (eventsOf KDeletePlans (snd (Run ex_runner_automerge (ex_ctx AutoTrigger) (ex_comment False)))) = 2
   \<and> pullDirAnswers ex_repo ex_pull (snd (Run ex_runner_automerge (ex_ctx AutoTrigger) (ex_comment False)))
       = [(''/data/acme/infra/7'', None), (''/data/acme/infra/7'', None)]
   \<and> deletedDirs (snd (Run ex_runner_automerge (ex_ctx AutoTrigger) (ex_comment False))) = [''/data/acme/infra/7'', ''/data/acme/infra/7'']"
proof -
  have h1: "builtCmds (snd (Run ex_runner_automerge (ex_ctx AutoTrigger) (ex_comment False))) = [([ex_project Plan ''vpc'', ex_project Plan ''dns''], None)]"
    by (simp add: pass_defs ex_defs)
  have h2: "postedResults (snd (Run ex_runner_automerge (ex_ctx AutoTrigger) (ex_comment False)))
       = [Result_zero\<lparr>ProjectResults :=
                         [lockResult (ex_project Plan ''vpc'') ex_conflict_response],
                      PlansDeleted := True\<rparr>]"
    by (simp add: pass_defs ex_defs)
  have h3: "automergeEnabled ex_runner_automerge
              (fst (partitionProjectCmds [ex_project Plan ''vpc'', ex_project Plan ''dns'']))"
    by (simp add: ex_defs)
  have h4: "HasErrors ex_runner_automerge (batchResult (snd (Run ex_runner_automerge (ex_ctx AutoTrigger) (ex_comment False))))"
    by (simp add: pass_defs ex_defs)
  have h5: "staleDeletions (ex_ctx AutoTrigger) (ex_comment False) = 1"
    by (simp add: staleDeletions_def ex_defs)
  have h6: "pullDirAnswers ex_repo ex_pull (snd (Run ex_runner_automerge (ex_ctx AutoTrigger) (ex_comment False)))
       = [(''/data/acme/infra/7'', None), (''/data/acme/infra/7'', None)]"
    by (simp add: pass_defs ex_defs)
  have h7: "BaseRepo (Pull (ex_ctx AutoTrigger)) = ex_repo" "Pull (ex_ctx AutoTrigger) = ex_pull"
    by (simp_all add: ex_ctx_def ex_pull_def)
  from C4_automerge_cleanup [OF h1 h2] h1 h2 h3 h4 h5 h6 h7 show ?thesis by simp
qed

subsection \<open>C5: the combined Apply status\<close>

text \<open>
  C5 as stated: whenever the apply success count (projects applied or planned with no
  changes) is below the number of projects, \<open>updateCommitStatus\<close> for Apply emits nothing.
  It fails when a project is in the errored-apply state: the failure is reported although
  a plan is still unapplied.
\<close>

theorem C5_counterexample:
  "StatusCount ex_pullStatus_applyErrored AppliedPlanStatus
     + StatusCount ex_pullStatus_applyErrored PlannedNoChangesPlanStatus
     < int (length (Projects ex_pullStatus_applyErrored))
   \<and> updateCommitStatus (ex_ctx AutoTrigger) ex_pullStatus_applyErrored Apply [] =
       [EvUpdateCombinedCount ex_repo ex_pull FailedCommitStatus Apply 0 2]"
  by (simp add: updateCommitStatus_def StatusCount_def Let_def
        ex_pullStatus_applyErrored_def ex_projectStatus_def ex_ctx_def ex_pull_def)

text \<open>
  C5, amended. While the apply success count is below the number of projects,
  \<open>updateCommitStatus\<close> for Apply emits no call at all unless some project is in the
  errored-apply state; in that case it emits the failure status with the counts.
\<close>

theorem C5_apply_status:
  assumes "StatusCount ps AppliedPlanStatus + StatusCount ps PlannedNoChangesPlanStatus
             < int (length (Projects ps))"
  shows "updateCommitStatus ctx ps Apply t =
     (if StatusCount ps ErroredApplyStatus > 0
      then t @ [EvUpdateCombinedCount (BaseRepo (Pull ctx)) (Pull ctx) FailedCommitStatus Apply
                  (StatusCount ps AppliedPlanStatus
                   + StatusCount ps PlannedNoChangesPlanStatus)
                  (int (length (Projects ps)))]
      else t)"
  using assms by (simp add: updateCommitStatus_def Let_def)

text \<open>C5, witness: three projects, one applied and two with a pending plan.\<close>

theorem C5_apply_status_witness:
  "StatusCount ex_pullStatus_pending AppliedPlanStatus
     + StatusCount ex_pullStatus_pending PlannedNoChangesPlanStatus
     < int (length (Projects ex_pullStatus_pending))
   \<and> updateCommitStatus (ex_ctx AutoTrigger) ex_pullStatus_pending Apply [] = []"
proof -
  have h: "StatusCount ex_pullStatus_pending AppliedPlanStatus
     + StatusCount ex_pullStatus_pending PlannedNoChangesPlanStatus
     < int (length (Projects ex_pullStatus_pending))"
    by (simp add: StatusCount_def ex_pullStatus_pending_def ex_projectStatus_def)
  have "StatusCount ex_pullStatus_pending ErroredApplyStatus = 0"
    by (simp add: StatusCount_def ex_pullStatus_pending_def ex_projectStatus_def)
  with h C5_apply_status [OF h, of "ex_ctx AutoTrigger" "[]"] show ?thesis
    by simp
qed

subsection \<open>C6: a failed final write\<close>

text \<open>
  C6 says that when \<open>updateDB\<close> returns an error no combined status is reported, in either
  pass. \<open>run\<close> returns after the error (line 367); \<open>runAutoplan\<close> only logs it (lines
  194-196) and goes on to report with the pull status \<open>updateDB\<close> returned. At the input
  below the write fails with an empty pull status, and the automatic pass reports Plan and
  Apply as successful with 0/0 projects.
\<close>

theorem C6_autoplan_reports_after_failed_write:
  "dbResponses (snd (Run ex_runner_dbError (ex_ctx AutoTrigger) (ex_comment False))) = [(\<lparr>Projects = []\<rparr>, Some ''database is closed'')]
   \<and> eventsOf KStatus (snd (Run ex_runner_dbError (ex_ctx AutoTrigger) (ex_comment False)))
       = [EvUpdateCombined ex_repo ex_pull PendingCommitStatus Plan,
          EvUpdateCombinedCount ex_repo ex_pull SuccessCommitStatus Plan 0 0,
          EvUpdateCombinedCount ex_repo ex_pull SuccessCommitStatus Apply 0 0]"
  by (simp add: pass_defs ex_defs)

text \<open>
  The comment pass does what C6 says: after a failed write nothing more is reported, the
  only status of the pass is the pending status set at its start.
\<close>

lemma run_failed_write_skips_status:
  assumes comment: "Trigger ctx \<noteq> AutoTrigger"
      and db: "dbResponses (snd (Run p ctx cmd)) = [(ps, Some e)]"
  shows "eventsOf KStatus (snd (Run p ctx cmd)) =
           [EvUpdateCombined (BaseRepo (Pull ctx)) (Pull ctx) PendingCommitStatus Plan]"
proof -
  from comment have R: "Run p ctx cmd = run p ctx cmd" by (simp add: Run_def)
  show ?thesis
  proof (cases rule: run_cases [of p ctx cmd])
    case (BuildError fq ferr cmds e')
    with db R show ?thesis by simp
  next
    case (Silent fq ferr gps gerr)
    with db R show ?thesis by (cases gerr; cases gps) (simp_all split: if_splits)
  next
    case (Main fq ferr cmds gd les mid dels res0 res ps' dberr)
    note seg = segment_observed [where am = "automergeEnabled p (cmdsOf Plan cmds)" and p = p,
      OF Main(2) Main(4) Main(5) Main(6) Main(7)]
    from db R Main(8) have "dberr = Some e"
      by (cases dberr) (simp_all add: seg(5-) split: if_splits)
    with R Main(8) show ?thesis by (simp add: seg(5-))
  qed
qed

subsection \<open>C7: an automatic pass with no Plan command\<close>

text \<open>
  C7. For every automatic pass in which command building yields zero Plan commands, the
  pass makes exactly three combined status updates after the call of the builder (success
  with count 0/0 for Plan, PolicyCheck and Apply) unless \<open>silenceVCSStatusNoPlans\<close> or
  \<open>silenceVCSStatusNoProjects\<close> is set, in which case it makes none; it makes no other
  call, so no pending status is set.
\<close>

theorem C7_zero_projects_autoplan:
  assumes auto: "Trigger ctx = AutoTrigger"
      and built: "builtCmds (snd (Run p ctx cmd)) = [(cmds, None)]"
      and zero: "fst (partitionProjectCmds cmds) = []"
  shows "snd (Run p ctx cmd) =
           EvBuildAutoplanCommands ctx (cmds, None)
           # (if silenceVCSStatusNoPlans p \<or> silenceVCSStatusNoProjects p then []
              else [EvUpdateCombinedCount (BaseRepo (Pull ctx)) (Pull ctx)
                      SuccessCommitStatus Plan 0 0,
                    EvUpdateCombinedCount (BaseRepo (Pull ctx)) (Pull ctx)
                      SuccessCommitStatus PolicyCheck 0 0,
                    EvUpdateCombinedCount (BaseRepo (Pull ctx)) (Pull ctx)
                      SuccessCommitStatus Apply 0 0])"
proof -
  have R: "Run p ctx cmd = runAutoplan p ctx" using auto by (simp add: Run_def)
  from zero have z: "cmdsOf Plan cmds = []" by (simp add: partitionProjectCmds_eq)
  show ?thesis
  proof (cases rule: runAutoplan_cases [of p ctx])
    case (BuildError cmds' e)
    with built R show ?thesis by simp
  next
    case (Zero cmds')
    with built R have "cmds' = cmds" by (simp split: if_splits)
    with Zero R show ?thesis by simp
  next
    case (Main cmds' gd les mid dels res0 res ps dberr)
    note seg = segment_observed [where am = "automergeEnabled p (cmdsOf Plan cmds')" and p = p,
        OF Main(2) Main(4) Main(5) Main(6) Main(7)]
    from built R Main(8) have "cmds' = cmds" by (simp add: seg(5-) split: if_splits)
    with Main(1) z show ?thesis by simp
  qed
qed

text \<open>C7, witness: the builder returns one PolicyCheck command and no Plan command.\<close>

theorem C7_zero_projects_autoplan_witness:
  "Trigger (ex_ctx AutoTrigger) = AutoTrigger
   \<and> builtCmds (snd (Run (ex_runner [ex_project PolicyCheck ''vpc'']) (ex_ctx AutoTrigger) (ex_comment False))) = [([ex_project PolicyCheck ''vpc''], None)]
   \<and> fst (partitionProjectCmds [ex_project PolicyCheck ''vpc'']) = []
   \<and> eventsOf KStatus (snd (Run (ex_runner [ex_project PolicyCheck ''vpc'']) (ex_ctx AutoTrigger) (ex_comment False)))
       = [EvUpdateCombinedCount ex_repo ex_pull SuccessCommitStatus Plan 0 0,
          EvUpdateCombinedCount ex_repo ex_pull SuccessCommitStatus PolicyCheck 0 0,
          EvUpdateCombinedCount ex_repo ex_pull SuccessCommitStatus Apply 0 0]"
proof -
  have h1: "Trigger (ex_ctx AutoTrigger) = AutoTrigger"
    by (simp add: ex_defs)
  have h2: "builtCmds (snd (Run (ex_runner [ex_project PolicyCheck ''vpc'']) (ex_ctx AutoTrigger) (ex_comment False))) = [([ex_project PolicyCheck ''vpc''], None)]"
    by (simp add: pass_defs ex_defs)
  have h3: "fst (partitionProjectCmds [ex_project PolicyCheck ''vpc'']) = []"
    by (simp add: pass_defs ex_defs)
  have h4: "\<not> (silenceVCSStatusNoPlans (ex_runner [ex_project PolicyCheck ''vpc''])
               \<or> silenceVCSStatusNoProjects (ex_runner [ex_project PolicyCheck ''vpc'']))"
    by (simp add: ex_defs)
  have h5: "BaseRepo (Pull (ex_ctx AutoTrigger)) = ex_repo" "Pull (ex_ctx AutoTrigger) = ex_pull"
    by (simp_all add: ex_ctx_def ex_pull_def)
  from C7_zero_projects_autoplan [OF h1 h2 h3] h1 h2 h3 h4 h5 show ?thesis by simp
qed

subsection \<open>C8: the combined Plan status\<close>

text \<open>
  C8. For every persisted pull status, the combined Plan status reports a success count
  equal to the number of projects minus those in an errored-plan state, a total equal to
  the number of projects, and the status failure exactly when at least one project is in
  an errored-plan state (success otherwise). \<open>updateCommitStatus\<close> for Plan appends exactly
  that one call.
\<close>

theorem C8_plan_status:
  "updateCommitStatus ctx ps Plan t =
     t @ [EvUpdateCombinedCount (BaseRepo (Pull ctx)) (Pull ctx)
            (if \<exists>pr\<in>set (Projects ps). Status pr = ErroredPlanStatus
             then FailedCommitStatus else SuccessCommitStatus)
            Plan
            (int (length (Projects ps))
             - int (length (filter (\<lambda>pr. Status pr = ErroredPlanStatus) (Projects ps))))
            (int (length (Projects ps)))]"
proof -
  have "(0 < length (filter (\<lambda>pr. Status pr = ErroredPlanStatus) (Projects ps)))
          = (\<exists>pr\<in>set (Projects ps). Status pr = ErroredPlanStatus)"
    by (simp add: filter_empty_conv del: length_0_conv)
  then show ?thesis
    by (simp add: updateCommitStatus_def StatusCount_def Let_def)
qed

text \<open>C8, witness: three projects, one of them with an errored plan.\<close>

theorem C8_plan_status_witness:
  "updateCommitStatus (ex_ctx AutoTrigger) ex_pullStatus_mixed Plan [] =
     [EvUpdateCombinedCount ex_repo ex_pull FailedCommitStatus Plan 2 3]"
  using C8_plan_status [of "ex_ctx AutoTrigger" ex_pullStatus_mixed "[]"]
  by (simp add: ex_pullStatus_mixed_def ex_projectStatus_def ex_ctx_def ex_pull_def)

subsection \<open>C9: the command builder fails\<close>

text \<open>
  C9. For every pass in which the command builder returns an error, the calls after the
  call of the builder are exactly two: the combined Plan status is set to failure, and one
  result, carrying the error and no project result, is posted. No lock is attempted, the
  execution pool is not invoked, and nothing of the aggregation happens (no plan is
  deleted, nothing is written to the database, no policy check is dispatched).
\<close>

theorem C9_builder_error:
  assumes built: "builtCmds (snd (Run p ctx cmd)) = [(cmds, Some err)]"
  shows "afterBuild (snd (Run p ctx cmd)) =
           [EvUpdateCombined (BaseRepo (Pull ctx)) (Pull ctx) FailedCommitStatus Plan,
            EvUpdatePull (fst (Run p ctx cmd))
              (if Trigger ctx = AutoTrigger then AutoplanCommand else CommentCmd cmd)
              (Result_zero\<lparr>Error := Some err\<rparr>)]
         \<and> postedResults (snd (Run p ctx cmd)) = [Result_zero\<lparr>Error := Some err\<rparr>]
         \<and> eventsOf KTryLock (snd (Run p ctx cmd)) = []
         \<and> eventsOf KExecution (snd (Run p ctx cmd)) = []
         \<and> eventsOf KDeletePlans (snd (Run p ctx cmd)) = []
         \<and> eventsOf KUpdateDB (snd (Run p ctx cmd)) = []
         \<and> eventsOf KPolicyCheckRun (snd (Run p ctx cmd)) = []"
proof (cases "Trigger ctx = AutoTrigger")
  case True
  then have R: "Run p ctx cmd = runAutoplan p ctx" by (simp add: Run_def)
  show ?thesis
  proof (cases rule: runAutoplan_cases [of p ctx])
    case (BuildError cmds' e)
    with built R have "e = err" by simp
    with BuildError R True show ?thesis by (simp add: afterBuild_first)
  next
    case (Zero cmds')
    with built R show ?thesis by (simp split: if_splits)
  next
    case (Main cmds' gd les mid dels res0 res ps dberr)
    note seg = segment_observed [where am = "automergeEnabled p (cmdsOf Plan cmds')" and p = p,
        OF Main(2) Main(4) Main(5) Main(6) Main(7)]
    from built R Main(8) show ?thesis by (simp add: seg(5-) split: if_splits)
  qed
next
  case False
  then have R: "Run p ctx cmd = run p ctx cmd" by (simp add: Run_def)
  show ?thesis
  proof (cases rule: run_cases [of p ctx cmd])
    case (BuildError fq ferr cmds' e)
    with built R have "e = err" by simp
    with BuildError R False show ?thesis by (simp add: afterBuild_prelude)
  next
    case (Silent fq ferr gps gerr)
    with built R show ?thesis by (simp split: if_splits)
  next
    case (Main fq ferr cmds' gd les mid dels res0 res ps dberr)
    note seg = segment_observed [where am = "automergeEnabled p (cmdsOf Plan cmds')" and p = p,
        OF Main(2) Main(4) Main(5) Main(6) Main(7)]
    from built R Main(8) show ?thesis
      by (cases dberr) (simp_all add: seg(5-) split: if_splits)
  qed
qed

text \<open>C9, witness: a comment pass whose builder cannot parse the repository configuration.\<close>

theorem C9_builder_error_witness:
  "builtCmds (snd (Run ex_runner_buildError (ex_ctx CommentTrigger) (ex_comment False))) = [([], Some ''parsing atlantis.yaml'')]
   \<and> afterBuild (snd (Run ex_runner_buildError (ex_ctx CommentTrigger) (ex_comment False)))
       = [EvUpdateCombined ex_repo ex_pull FailedCommitStatus Plan,
          EvUpdatePull ex_ctx_fetched (CommentCmd (ex_comment False))
            (Result_zero\<lparr>Error := Some ''parsing atlantis.yaml''\<rparr>)]
   \<and> eventsOf KTryLock (snd (Run ex_runner_buildError (ex_ctx CommentTrigger) (ex_comment False))) = []
   \<and> eventsOf KExecution (snd (Run ex_runner_buildError (ex_ctx CommentTrigger) (ex_comment False))) = []"
proof -
  have h1: "builtCmds (snd (Run ex_runner_buildError (ex_ctx CommentTrigger) (ex_comment False))) = [([], Some ''parsing atlantis.yaml'')]"
    by (simp add: pass_defs ex_defs)
  have h2: "fst (Run ex_runner_buildError (ex_ctx CommentTrigger) (ex_comment False))
              = ex_ctx_fetched"
    by (simp add: pass_defs ex_defs)
  have h3: "Trigger (ex_ctx CommentTrigger) \<noteq> AutoTrigger"
    "BaseRepo (Pull (ex_ctx CommentTrigger)) = ex_repo" "Pull (ex_ctx CommentTrigger) = ex_pull"
    by (simp_all add: ex_ctx_def ex_pull_def)
  from C9_builder_error [OF h1] h1 h2 h3 show ?thesis by simp
qed

subsection \<open>C10: a pending status that is never reset\<close>

text \<open>
  C10. In a comment pass, when the command builder returns zero projects,
  \<open>SilenceNoProjects\<close> is set, \<open>silenceVCSStatusNoProjects\<close> is not, the command is for one
  specific project and fetching the persisted pull status fails, the pass returns right
  after the failed fetch: the only combined status of the pass is the pending Plan status
  set before the builder was called, which is therefore never reset.
\<close>

theorem C10_pending_never_reset:
  assumes comment: "Trigger ctx \<noteq> AutoTrigger"
      and built: "builtCmds (snd (Run p ctx cmd)) = [([], None)]"
      and silence: "SilenceNoProjects p"
      and vcs: "\<not> silenceVCSStatusNoProjects p"
      and specific: "IsForSpecificProject cmd"
      and fetch: "pullStatusResponses (snd (Run p ctx cmd)) = [(ps, Some e)]"
  shows "eventsOf KStatus (snd (Run p ctx cmd)) =
           [EvUpdateCombined (BaseRepo (Pull ctx)) (Pull ctx) PendingCommitStatus Plan]
         \<and> last (snd (Run p ctx cmd)) = EvGetPullStatus (Pull ctx) (ps, Some e)"
proof -
  from comment have R: "Run p ctx cmd = run p ctx cmd" by (simp add: Run_def)
  show ?thesis
  proof (cases rule: run_cases [of p ctx cmd])
    case (BuildError fq ferr cmds' e')
    with built R show ?thesis by simp
  next
    case (Silent fq ferr gps gerr)
    from fetch R Silent(2) vcs specific have "(gps, gerr) = (ps, Some e)"
      by (cases gerr; cases gps) simp_all
    with Silent(2) R vcs specific show ?thesis by simp
  next
    case (Main fq ferr cmds' gd les mid dels res0 res ps' dberr)
    note seg = segment_observed [where am = "automergeEnabled p (cmdsOf Plan cmds')" and p = p,
        OF Main(2) Main(4) Main(5) Main(6) Main(7)]
    from built R Main(8) have "cmds' = []"
      by (cases dberr) (simp_all add: seg(5-) split: if_splits)
    with Main(1) silence show ?thesis by simp
  qed
qed

text \<open>C10, witness: the comment names a project that matches nothing; the fetch fails.\<close>

theorem C10_pending_never_reset_witness:
  "Trigger (ex_ctx CommentTrigger) \<noteq> AutoTrigger
   \<and> builtCmds (snd (Run ex_runner_silent (ex_ctx CommentTrigger) (ex_comment True))) = [([], None)]
   \<and> SilenceNoProjects ex_runner_silent
   \<and> \<not> silenceVCSStatusNoProjects ex_runner_silent
   \<and> IsForSpecificProject (ex_comment True)
   \<and> pullStatusResponses (snd (Run ex_runner_silent (ex_ctx CommentTrigger) (ex_comment True))) = [(None, Some ''database is closed'')]
   \<and> eventsOf KStatus (snd (Run ex_runner_silent (ex_ctx CommentTrigger) (ex_comment True))) = [EvUpdateCombined ex_repo ex_pull PendingCommitStatus Plan]
   \<and> last (snd (Run ex_runner_silent (ex_ctx CommentTrigger) (ex_comment True))) = EvGetPullStatus ex_pull (None, Some ''database is closed'')"
proof -
  have h1: "Trigger (ex_ctx CommentTrigger) \<noteq> AutoTrigger"
    by (simp add: ex_defs)
  have h2: "builtCmds (snd (Run ex_runner_silent (ex_ctx CommentTrigger) (ex_comment True))) = [([], None)]"
    by (simp add: pass_defs ex_defs)
  have h3: "SilenceNoProjects ex_runner_silent"
    by (simp add: ex_defs)
  have h4: "\<not> silenceVCSStatusNoProjects ex_runner_silent"
    by (simp add: ex_defs)
  have h5: "IsForSpecificProject (ex_comment True)"
    by (simp add: ex_defs)
  have h6: "pullStatusResponses (snd (Run ex_runner_silent (ex_ctx CommentTrigger) (ex_comment True))) = [(None, Some ''database is closed'')]"
    by (simp add: pass_defs ex_defs)
  have h7: "BaseRepo (Pull (ex_ctx CommentTrigger)) = ex_repo"
    "Pull (ex_ctx CommentTrigger) = ex_pull"
    by (simp_all add: ex_ctx_def ex_pull_def)
  from C10_pending_never_reset [OF h1 h2 h3 h4 h5 h6] h1 h2 h3 h4 h5 h6 h7 show ?thesis
    by simp
qed

end
